theory Spec2Isabelle
  imports Main
begin

section \<open>Data model (users/models.py)\<close>

text \<open>
  The tables of the Django models, one record per row type and one list of rows per
  table. Foreign keys hold the primary key of the row they point to. A post's
  \<open>privacy\<close> column has the two choices \<open>public\<close> and \<open>private\<close>. The password
  column holds either an unusable password (\<open>set_password(None)\<close>) or the hash of a raw
  password; the hasher is kept abstract, \<open>Hashed raw\<close> standing for the hash of \<open>raw\<close>.
\<close>

datatype privacy = Public | Private

datatype credential = Unusable | Hashed string

record user =
  user_id :: nat
  email :: string
  password :: credential
  first_name :: string
  last_name :: string
  is_staff :: bool

record profile =
  profile_user :: nat
  display_name :: string
  bio :: string

record social_account =
  sa_user :: nat
  sa_provider :: string
  sa_uid :: string

record post =
  post_id :: nat
  author :: nat
  content :: string
  post_privacy :: privacy

record comment =
  comment_id :: nat
  comment_post :: nat
  comment_author :: nat
  comment_text :: string
  comment_parent :: "nat option"

record media =
  media_id :: nat
  media_post :: nat
  media_file :: string
  media_content_type :: string
  media_size :: nat
  media_width :: "nat option"
  media_height :: "nat option"
  uploaded_by :: nat

record like =
  like_post :: nat
  like_user :: nat

record db =
  users :: "user list"
  profiles :: "profile list"
  social_accounts :: "social_account list"
  posts :: "post list"
  comments :: "comment list"
  media_rows :: "media list"
  likes :: "like list"
  blacklisted :: "string list"
  next_user_id :: nat
  next_comment_id :: nat
  next_media_id :: nat

section \<open>Requests, failures and permissions (users/views.py)\<close>

text \<open>
  \<open>request.user\<close> is either Django's anonymous user or an account. A view either
  returns its value or fails; the failures are the exceptions the code raises and the
  error responses it builds: \<open>NotAuthenticated\<close> is HTTP 401, \<open>PermissionDenied\<close> is
  HTTP 403 (the spec's Forbidden), \<open>Http404\<close> is HTTP 404 (the spec's NotFound),
  \<open>ValidationError\<close> and \<open>BadRequest\<close> are HTTP 400.
\<close>

datatype request_user = AnonymousUser | Authenticated user

datatype failure =
    NotAuthenticated
  | PermissionDenied
  | Http404
  | ValidationError
  | BadRequest string
  | ValueError
  | IntegrityError
  | MultipleObjectsReturned
  | DoesNotExist
  | TokenError

datatype http_method = GET | HEAD | OPTIONS | POST | PUT | PATCH | DELETE

definition SAFE_METHODS :: "http_method set" where
  "SAFE_METHODS = {GET, HEAD, OPTIONS}"

fun is_authenticated :: "request_user \<Rightarrow> bool" where
  "is_authenticated AnonymousUser = False"
| "is_authenticated (Authenticated a) = True"

text \<open>\<open>obj.author == request.user\<close>: model instances are equal when their keys are.\<close>

fun is_user :: "nat \<Rightarrow> request_user \<Rightarrow> bool" where
  "is_user k AnonymousUser = False"
| "is_user k (Authenticated a) = (k = user_id a)"

text \<open>
  \<open>IsOwnerOrReadOnly.has_object_permission\<close>. The second argument is
  \<open>getattr(obj, 'author', None)\<close>.
\<close>

definition has_object_permission :: "http_method \<Rightarrow> nat option \<Rightarrow> request_user \<Rightarrow> bool" where
  "has_object_permission m obj_author u =
     (if m \<in> SAFE_METHODS then True
      else (case obj_author of None \<Rightarrow> False | Some k \<Rightarrow> is_user k u))"

section \<open>Python strings and serializer fields\<close>

text \<open>
  String helpers of Python, on ASCII: \<open>str.strip()\<close>, \<open>str.lower()\<close>,
  \<open>s.split('@')[0]\<close>, \<open>s.rsplit('@', 1)\<close> (\<open>None\<close> when there is no \<open>@\<close>, where
  unpacking the result into two names raises) and \<open>str(n)\<close> for a number.
\<close>

definition is_space :: "char \<Rightarrow> bool" where
  "is_space c = (c \<in> set [CHR '' '', CHR 0x09, CHR 0x0A, CHR 0x0B, CHR 0x0C, CHR 0x0D,
                             CHR 0x1C, CHR 0x1D, CHR 0x1E, CHR 0x1F])"

definition strip :: "string \<Rightarrow> string" where
  "strip s = rev (dropWhile is_space (rev (dropWhile is_space s)))"

definition lower_char :: "char \<Rightarrow> char" where
  "lower_char c =
     (let n = (of_char c :: nat) in if 65 \<le> n \<and> n \<le> 90 then char_of (n + 32) else c)"

definition lower :: "string \<Rightarrow> string" where
  "lower s = map lower_char s"

definition split_at_first :: "string \<Rightarrow> string" where
  "split_at_first s = takeWhile (\<lambda>c. c \<noteq> CHR ''@'') s"

definition rsplit_at :: "string \<Rightarrow> (string \<times> string) option" where
  "rsplit_at s =
     (let r = rev s; rest = dropWhile (\<lambda>c. c \<noteq> CHR ''@'') r
      in if rest = [] then None
         else Some (rev (tl rest), rev (takeWhile (\<lambda>c. c \<noteq> CHR ''@'') r)))"

fun str_nat :: "nat \<Rightarrow> string" where
  "str_nat n =
     (if n < 10 then [char_of (48 + n)]
      else str_nat (n div 10) @ [char_of (48 + n mod 10)])"

declare str_nat.simps [simp del]

text \<open>
  A required \<open>serializers.CharField\<close> with the framework's defaults
  (\<open>allow_blank=False\<close>, \<open>trim_whitespace=True\<close>): a missing value and a value that is
  blank once trimmed are refused, and the value handed on is the trimmed one.
\<close>

definition CharField :: "string option \<Rightarrow> failure + string" where
  "CharField v =
     (case v of
        None \<Rightarrow> Inl ValidationError
      | Some s \<Rightarrow> if strip s = [] then Inl ValidationError else Inr (strip s))"

section \<open>PostViewSet\<close>

definition get_queryset :: "db \<Rightarrow> request_user \<Rightarrow> post list" where
  "get_queryset d u =
     (case u of
        AnonymousUser \<Rightarrow> filter (\<lambda>p. post_privacy p = Public) (posts d)
      | Authenticated a \<Rightarrow>
          if is_staff a then posts d
          else filter (\<lambda>p. post_privacy p = Public \<or> author p = user_id a) (posts d))"

text \<open>
  The framework's \<open>get_object_or_404\<close> on a queryset, by primary key.
\<close>

definition get_object_or_404 :: "post list \<Rightarrow> nat \<Rightarrow> failure + post" where
  "get_object_or_404 qs pk =
     (case find (\<lambda>p. post_id p = pk) qs of None \<Rightarrow> Inl Http404 | Some p \<Rightarrow> Inr p)"

text \<open>
  \<open>self.get_object()\<close> of the view set under its class-level
  \<open>permission_classes = [IsAuthenticated, IsOwnerOrReadOnly]\<close>: the request is refused
  before the handler runs when it is not authenticated, the object is looked up in the
  filtered queryset, and the object-level permission is checked on what was found.
\<close>

definition PostViewSet_get_object :: "http_method \<Rightarrow> db \<Rightarrow> request_user \<Rightarrow> nat \<Rightarrow> failure + post" where
  "PostViewSet_get_object m d u pk =
     (if \<not> is_authenticated u then Inl NotAuthenticated
      else (case get_object_or_404 (get_queryset d u) pk of
              Inl e \<Rightarrow> Inl e
            | Inr p \<Rightarrow>
                if has_object_permission m (Some (author p)) u then Inr p
                else Inl PermissionDenied))"

definition list_posts :: "db \<Rightarrow> request_user \<Rightarrow> failure + post list" where
  "list_posts d u =
     (if \<not> is_authenticated u then Inl NotAuthenticated else Inr (get_queryset d u))"

definition retrieve :: "db \<Rightarrow> request_user \<Rightarrow> nat \<Rightarrow> failure + post" where
  "retrieve d u pk = PostViewSet_get_object GET d u pk"

text \<open>
  Validated data of the post serializer for an update, and the handlers \<open>update\<close>
  (PUT and PATCH) and \<open>destroy\<close>. Both start with \<open>self.get_object()\<close>. Deleting a
  post cascades to its comments, media and likes.
\<close>

record post_data =
  new_content :: string
  new_privacy :: privacy

definition save_post :: "post \<Rightarrow> db \<Rightarrow> db" where
  "save_post p d = d\<lparr>posts := map (\<lambda>q. if post_id q = post_id p then p else q) (posts d)\<rparr>"

definition delete_post :: "post \<Rightarrow> db \<Rightarrow> db" where
  "delete_post p d =
     d\<lparr>posts := filter (\<lambda>q. post_id q \<noteq> post_id p) (posts d),
       comments := filter (\<lambda>c. comment_post c \<noteq> post_id p) (comments d),
       media_rows := filter (\<lambda>m. media_post m \<noteq> post_id p) (media_rows d),
       likes := filter (\<lambda>l. like_post l \<noteq> post_id p) (likes d)\<rparr>"

definition update :: "http_method \<Rightarrow> db \<Rightarrow> request_user \<Rightarrow> nat \<Rightarrow> post_data \<Rightarrow> (failure + post) \<times> db" where
  "update m d u pk dat =
     (case PostViewSet_get_object m d u pk of
        Inl e \<Rightarrow> (Inl e, d)
      | Inr p \<Rightarrow>
          (let p' = p\<lparr>content := new_content dat, post_privacy := new_privacy dat\<rparr>
           in (Inr p', save_post p' d)))"

definition destroy :: "db \<Rightarrow> request_user \<Rightarrow> nat \<Rightarrow> (failure + unit) \<times> db" where
  "destroy d u pk =
     (case PostViewSet_get_object DELETE d u pk of
        Inl e \<Rightarrow> (Inl e, d)
      | Inr p \<Rightarrow> (Inr (), delete_post p d))"

subsection \<open>The like action\<close>

text \<open>
  \<open>Like.objects.get_or_create(post=post, user=request.user)\<close>: the rows matching the
  pair are looked up; none means a row is created, one is returned as found, more than
  one is \<open>MultipleObjectsReturned\<close> (the table's \<open>unique_together\<close> rules that out).
  \<open>like.delete()\<close> removes the row found. \<open>post.likes.count()\<close> counts the rows of
  the post.
\<close>

definition like_get_or_create :: "db \<Rightarrow> nat \<Rightarrow> nat \<Rightarrow> failure + (like \<times> bool \<times> db)" where
  "like_get_or_create d p k =
     (case filter (\<lambda>l. like_post l = p \<and> like_user l = k) (likes d) of
        [] \<Rightarrow> (let l = \<lparr>like_post = p, like_user = k\<rparr> in Inr (l, True, d\<lparr>likes := likes d @ [l]\<rparr>))
      | [l] \<Rightarrow> Inr (l, False, d)
      | _ \<Rightarrow> Inl MultipleObjectsReturned)"

definition like_delete :: "like \<Rightarrow> db \<Rightarrow> db" where
  "like_delete l d = d\<lparr>likes := filter (\<lambda>l'. l' \<noteq> l) (likes d)\<rparr>"

definition likes_count_of :: "db \<Rightarrow> nat \<Rightarrow> nat" where
  "likes_count_of d p = length (filter (\<lambda>l. like_post l = p) (likes d))"

record like_response =
  liked :: bool
  likes_count :: nat
  message :: string

text \<open>
  The action is declared with \<open>permission_classes=[permissions.IsAuthenticated]\<close>, so
  its \<open>get_object()\<close> has no owner check.
\<close>

definition like :: "db \<Rightarrow> request_user \<Rightarrow> nat \<Rightarrow> (failure + like_response) \<times> db" where
  "like d u pk =
     (case u of
        AnonymousUser \<Rightarrow> (Inl NotAuthenticated, d)
      | Authenticated a \<Rightarrow>
          (case get_object_or_404 (get_queryset d u) pk of
             Inl e \<Rightarrow> (Inl e, d)
           | Inr p \<Rightarrow>
               (case like_get_or_create d (post_id p) (user_id a) of
                  Inl e \<Rightarrow> (Inl e, d)
                | Inr (l, created, d') \<Rightarrow>
                    if \<not> created then
                      (let d'' = like_delete l d'
                       in (Inr \<lparr>liked = False, likes_count = likes_count_of d'' (post_id p),
                                 message = ''Like removed''\<rparr>, d''))
                    else
                      (Inr \<lparr>liked = True, likes_count = likes_count_of d' (post_id p),
                             message = ''Post liked''\<rparr>, d'))))"

section \<open>CommentViewSet\<close>

definition CommentViewSet_get_queryset :: "db \<Rightarrow> nat \<Rightarrow> comment list" where
  "CommentViewSet_get_queryset d post_pk = filter (\<lambda>c. comment_post c = post_pk) (comments d)"

text \<open>
  The body of a comment request and what \<open>CommentSerializer\<close> makes of it. The
  writable fields are \<open>text\<close> (required, not blank, trimmed) and \<open>parent\<close> (optional;
  when given it must be the key of a comment in the table). A refusal is the
  framework's \<open>ValidationError\<close>.
\<close>

record comment_data =
  data_text :: "string option"
  data_parent :: "nat option"

record validated_comment =
  valid_text :: string
  valid_parent :: "nat option"

definition CommentSerializer_is_valid :: "db \<Rightarrow> comment_data \<Rightarrow> failure + validated_comment" where
  "CommentSerializer_is_valid d dat =
     (case CharField (data_text dat) of
        Inl e \<Rightarrow> Inl e
      | Inr txt \<Rightarrow>
          (case data_parent dat of
             None \<Rightarrow> Inr \<lparr>valid_text = txt, valid_parent = None\<rparr>
           | Some k \<Rightarrow>
               if k \<in> set (map comment_id (comments d))
               then Inr \<lparr>valid_text = txt, valid_parent = Some k\<rparr>
               else Inl ValidationError))"

text \<open>
  \<open>perform_create\<close>, the hook called with the validated data:
  \<open>Post.objects.get(id=post_id)\<close> reads the whole table, not the filtered queryset.
  \<open>serializer.save(author=request.user, ...)\<close> cannot store the anonymous user as an
  author (\<open>ValueError\<close>); the view's \<open>IsAuthenticated\<close> keeps that case away.
\<close>

definition perform_create :: "db \<Rightarrow> request_user \<Rightarrow> nat \<Rightarrow> validated_comment \<Rightarrow> (failure + comment) \<times> db" where
  "perform_create d u post_pk v =
     (case find (\<lambda>p. post_id p = post_pk) (posts d) of
        None \<Rightarrow> (Inl Http404, d)
      | Some p \<Rightarrow>
          if post_privacy p = Private \<and> \<not> is_user (author p) u then (Inl Http404, d)
          else (case u of
                  AnonymousUser \<Rightarrow> (Inl ValueError, d)
                | Authenticated a \<Rightarrow>
                    (let c = \<lparr>comment_id = next_comment_id d, comment_post = post_pk,
                              comment_author = user_id a, comment_text = valid_text v,
                              comment_parent = valid_parent v\<rparr>
                     in (Inr c, d\<lparr>comments := comments d @ [c],
                                  next_comment_id := Suc (next_comment_id d)\<rparr>))))"

text \<open>
  \<open>CommentViewSet.create\<close>, that is the framework's \<open>CreateModelMixin.create\<close>: the
  permission check of the view, then \<open>serializer.is_valid(raise_exception=True)\<close>, then
  \<open>perform_create\<close>.
\<close>

definition create_comment :: "db \<Rightarrow> request_user \<Rightarrow> nat \<Rightarrow> comment_data \<Rightarrow> (failure + comment) \<times> db" where
  "create_comment d u post_pk dat =
     (if \<not> is_authenticated u then (Inl NotAuthenticated, d)
      else (case CommentSerializer_is_valid d dat of
              Inl e \<Rightarrow> (Inl e, d)
            | Inr v \<Rightarrow> perform_create d u post_pk v))"

text \<open>
  \<open>get_object()\<close> of the comment routes (update, partial update, destroy), under
  \<open>permission_classes = [IsAuthenticated, IsOwnerOrReadOnly]\<close>.
\<close>

definition CommentViewSet_get_object :: "http_method \<Rightarrow> db \<Rightarrow> request_user \<Rightarrow> nat \<Rightarrow> nat \<Rightarrow> failure + comment" where
  "CommentViewSet_get_object m d u post_pk pk =
     (if \<not> is_authenticated u then Inl NotAuthenticated
      else (case find (\<lambda>c. comment_id c = pk) (CommentViewSet_get_queryset d post_pk) of
              None \<Rightarrow> Inl Http404
            | Some c \<Rightarrow>
                if has_object_permission m (Some (comment_author c)) u then Inr c
                else Inl PermissionDenied))"

definition destroy_comment :: "db \<Rightarrow> request_user \<Rightarrow> nat \<Rightarrow> nat \<Rightarrow> (failure + unit) \<times> db" where
  "destroy_comment d u post_pk pk =
     (case CommentViewSet_get_object DELETE d u post_pk pk of
        Inl e \<Rightarrow> (Inl e, d)
      | Inr c \<Rightarrow> (Inr (), d\<lparr>comments := filter (\<lambda>c'. comment_id c' \<noteq> comment_id c) (comments d)\<rparr>))"

section \<open>Media validation (users/validators.py)\<close>

text \<open>
  The two settings \<open>validate_media_file\<close> reads, and an uploaded file as the validator
  sees it: its name, size and declared content type, and \<open>image_size\<close>, what Pillow
  makes of the content (\<open>Image.open\<close>, \<open>img.size\<close>, \<open>img.verify()\<close>): the
  dimensions, or \<open>None\<close> when any of the three raises.
\<close>

record settings =
  MEDIA_MAX_SIZE :: nat
  MEDIA_ALLOWED_CONTENT_TYPES :: "string list"

record uploaded_file =
  upload_name :: string
  upload_size :: nat
  upload_content_type :: "string option"
  image_size :: "(nat \<times> nat) option"

datatype media_error =
    EmptyFile
  | FileTooLarge nat
  | UnsupportedContentType string
  | InvalidImage

record media_meta =
  meta_content_type :: string
  meta_size :: nat
  meta_width :: "nat option"
  meta_height :: "nat option"

definition startswith :: "string \<Rightarrow> string \<Rightarrow> bool" where
  "startswith s pre = (take (length pre) s = pre)"

definition validate_media_file :: "settings \<Rightarrow> uploaded_file \<Rightarrow> media_error + media_meta" where
  "validate_media_file cfg f =
     (let max_size = MEDIA_MAX_SIZE cfg;
          allowed = MEDIA_ALLOWED_CONTENT_TYPES cfg;
          sz = upload_size f;
          ctype = (case upload_content_type f of None \<Rightarrow> [] | Some c \<Rightarrow> c)
      in if sz = 0 then Inl EmptyFile
         else if sz > max_size then Inl (FileTooLarge max_size)
         else if allowed \<noteq> [] \<and> ctype \<notin> set allowed then Inl (UnsupportedContentType ctype)
         else if startswith ctype ''image/'' then
           (case image_size f of
              None \<Rightarrow> Inl InvalidImage
            | Some (w, h) \<Rightarrow>
                Inr \<lparr>meta_content_type = ctype, meta_size = sz,
                     meta_width = Some w, meta_height = Some h\<rparr>)
         else Inr \<lparr>meta_content_type = ctype, meta_size = sz,
                   meta_width = None, meta_height = None\<rparr>)"

section \<open>MediaBatchUploadView and MediaDetailView\<close>

text \<open>
  The file storage behind the \<open>file\<close> column, as far as the views depend on it.
  \<open>storage_save\<close> stands for saving an upload under the name \<open>upload_to\<close> proposes: it
  gives the name the file is stored under, or \<open>None\<close> when the storage raises (it
  refuses names it cannot make a valid file name of). \<open>storage_url\<close> is the URL of a
  stored name, or \<open>None\<close> when the storage has none to give.
\<close>

record backend =
  storage_save :: "string \<Rightarrow> string option"
  storage_url :: "string \<Rightarrow> string option"

definition upload_post_media_path :: "nat \<Rightarrow> string \<Rightarrow> string" where
  "upload_post_media_path pid filename = ''posts/'' @ str_nat pid @ ''/'' @ filename"

text \<open>
  The framework's file-system storage, as far as names go. \<open>get_valid_filename\<close>
  trims the name, turns spaces into underscores and drops every character that is not
  a letter, a digit, an underscore, a hyphen or a dot (ASCII here); it raises when
  nothing but \<open>.\<close> or \<open>..\<close> is left. \<open>generate_filename\<close> applies it to the last
  component of the proposed path. A generated name that is free and fits the column is
  the name the file is stored under, and its URL is the name under \<open>/media/\<close>.
\<close>

definition is_word_char :: "char \<Rightarrow> bool" where
  "is_word_char c =
     (let n = (of_char c :: nat)
      in (48 \<le> n \<and> n \<le> 57) \<or> (65 \<le> n \<and> n \<le> 90) \<or> (97 \<le> n \<and> n \<le> 122) \<or> n = 95)"

definition get_valid_filename :: "string \<Rightarrow> string option" where
  "get_valid_filename name =
     (let s = map (\<lambda>c. if c = CHR '' '' then CHR ''_'' else c) (strip name);
          s = filter (\<lambda>c. c = CHR ''-'' \<or> c = CHR ''.'' \<or> is_word_char c) s
      in if s \<in> set [[], ''.'', ''..''] then None else Some s)"

definition generate_filename :: "string \<Rightarrow> string option" where
  "generate_filename path =
     (let r = rev path;
          filename = rev (takeWhile (\<lambda>c. c \<noteq> CHR ''/'') r);
          dirname = rev (dropWhile (\<lambda>c. c \<noteq> CHR ''/'') r)
      in case get_valid_filename filename of
           None \<Rightarrow> None
         | Some name \<Rightarrow> Some (dirname @ name))"

definition FileSystemStorage :: backend where
  "FileSystemStorage =
     \<lparr>storage_save = generate_filename, storage_url = (\<lambda>name. Some (''/media/'' @ name))\<rparr>"

text \<open>
  \<open>Media.objects.create(post_id=post_id, file=f, uploaded_by=request.user, **meta)\<close>:
  saving the row first saves the file; when that raises no row is written. The row
  gets the next key of the table.
\<close>

definition Media_create ::
  "backend \<Rightarrow> db \<Rightarrow> nat \<Rightarrow> uploaded_file \<Rightarrow> nat \<Rightarrow> media_meta \<Rightarrow> (media \<times> db) option" where
  "Media_create be d post_pk f k meta =
     (case storage_save be (upload_post_media_path post_pk (upload_name f)) of
        None \<Rightarrow> None
      | Some name \<Rightarrow>
          (let m = \<lparr>media_id = next_media_id d, media_post = post_pk, media_file = name,
                    media_content_type = meta_content_type meta, media_size = meta_size meta,
                    media_width = meta_width meta, media_height = meta_height meta,
                    uploaded_by = k\<rparr>
           in Some (m, d\<lparr>media_rows := media_rows d @ [m],
                          next_media_id := Suc (next_media_id d)\<rparr>)))"

text \<open>
  \<open>MediaSerializer(media).data\<close>: the fields of the serializer read off the row, the
  file as its URL. Reading the URL is the one step that can raise.
\<close>

record media_data =
  data_id :: nat
  data_file :: string
  data_content_type :: string
  data_size :: nat
  data_width :: "nat option"
  data_height :: "nat option"

definition MediaSerializer_data :: "backend \<Rightarrow> media \<Rightarrow> media_data option" where
  "MediaSerializer_data be m =
     (case storage_url be (media_file m) of
        None \<Rightarrow> None
      | Some url \<Rightarrow>
          Some \<lparr>data_id = media_id m, data_file = url,
                data_content_type = media_content_type m, data_size = media_size m,
                data_width = media_width m, data_height = media_height m\<rparr>)"

text \<open>
  The loop \<open>for f in files\<close> of the batch view, with the database and the two lists it
  appends to as the loop state. The \<open>try\<close> block holds the validation, the creation of
  the row and its serialisation; \<open>except Exception\<close> turns whatever one of them raises
  into an entry of \<open>errors\<close>. Nothing is undone: a row written before its serialisation
  raised stays in the table.
\<close>

datatype batch_error =
    Invalid media_error
  | CreateFailed
  | SerializeFailed

fun upload_each ::
  "backend \<Rightarrow> settings \<Rightarrow> nat \<Rightarrow> nat \<Rightarrow> uploaded_file list \<Rightarrow>
   db \<times> media_data list \<times> (string \<times> batch_error) list \<Rightarrow>
   db \<times> media_data list \<times> (string \<times> batch_error) list" where
  "upload_each be cfg post_pk k [] st = st"
| "upload_each be cfg post_pk k (f # fs) (d, created, errors) =
     (case validate_media_file cfg f of
        Inl e \<Rightarrow>
          upload_each be cfg post_pk k fs (d, created, errors @ [(upload_name f, Invalid e)])
      | Inr meta \<Rightarrow>
          (case Media_create be d post_pk f k meta of
             None \<Rightarrow>
               upload_each be cfg post_pk k fs (d, created, errors @ [(upload_name f, CreateFailed)])
           | Some (m, d') \<Rightarrow>
               (case MediaSerializer_data be m of
                  None \<Rightarrow>
                    upload_each be cfg post_pk k fs
                      (d', created, errors @ [(upload_name f, SerializeFailed)])
                | Some r \<Rightarrow> upload_each be cfg post_pk k fs (d', created @ [r], errors))))"

record batch_response =
  status_code :: nat
  created :: "media_data list"
  errors :: "(string \<times> batch_error) list"

definition MediaBatchUploadView_post ::
  "backend \<Rightarrow> settings \<Rightarrow> db \<Rightarrow> request_user \<Rightarrow> nat \<Rightarrow> uploaded_file list \<Rightarrow>
   (failure + batch_response) \<times> db" where
  "MediaBatchUploadView_post be cfg d u post_pk files =
     (case u of
        AnonymousUser \<Rightarrow> (Inl NotAuthenticated, d)
      | Authenticated a \<Rightarrow>
          (case find (\<lambda>p. post_id p = post_pk) (posts d) of
             None \<Rightarrow> (Inl Http404, d)
           | Some p \<Rightarrow>
               if post_privacy p = Private \<and> \<not> is_user (author p) u then (Inl Http404, d)
               else if files = [] then (Inl (BadRequest ''No files provided''), d)
               else
                 (case upload_each be cfg post_pk (user_id a) files (d, [], []) of
                    (d', cs, es) \<Rightarrow>
                      (Inr \<lparr>status_code = (if es \<noteq> [] then 207 else 201),
                            created = cs, errors = es\<rparr>, d'))))"

text \<open>
  For the batch claims: the files of a batch that fail validation (their number is the
  claim's \<open>K\<close>), whether a file ends up as a row of the table (\<open>stored\<close>: it passes
  validation and the storage takes it) and whether it ends up in \<open>created\<close>
  (\<open>served\<close>: it is stored and its row serialises).
\<close>

definition failing_files :: "settings \<Rightarrow> uploaded_file list \<Rightarrow> uploaded_file list" where
  "failing_files cfg files = filter (\<lambda>f. isl (validate_media_file cfg f)) files"

definition stored :: "backend \<Rightarrow> settings \<Rightarrow> nat \<Rightarrow> uploaded_file \<Rightarrow> bool" where
  "stored be cfg post_pk f =
     (case validate_media_file cfg f of
        Inl e \<Rightarrow> False
      | Inr meta \<Rightarrow>
          (case storage_save be (upload_post_media_path post_pk (upload_name f)) of
             None \<Rightarrow> False
           | Some name \<Rightarrow> True))"

definition served :: "backend \<Rightarrow> settings \<Rightarrow> nat \<Rightarrow> uploaded_file \<Rightarrow> bool" where
  "served be cfg post_pk f =
     (case validate_media_file cfg f of
        Inl e \<Rightarrow> False
      | Inr meta \<Rightarrow>
          (case storage_save be (upload_post_media_path post_pk (upload_name f)) of
             None \<Rightarrow> False
           | Some name \<Rightarrow> (case storage_url be name of None \<Rightarrow> False | Some url \<Rightarrow> True)))"

text \<open>
  \<open>MediaDetailView.get_object\<close>: the framework's lookup in
  \<open>Media.objects.filter(post_id=post_id)\<close>, then the check on the parent post's author
  and the uploader. \<open>obj.post\<close> follows the foreign key; a row whose post is missing
  cannot be stored, the model gives it \<open>DoesNotExist\<close>.
\<close>

definition MediaDetailView_get_object :: "db \<Rightarrow> request_user \<Rightarrow> nat \<Rightarrow> nat \<Rightarrow> failure + media" where
  "MediaDetailView_get_object d u post_pk pk =
     (if \<not> is_authenticated u then Inl NotAuthenticated
      else (case find (\<lambda>m. media_id m = pk) (filter (\<lambda>m. media_post m = post_pk) (media_rows d)) of
              None \<Rightarrow> Inl Http404
            | Some obj \<Rightarrow>
                (case find (\<lambda>p. post_id p = media_post obj) (posts d) of
                   None \<Rightarrow> Inl DoesNotExist
                 | Some p \<Rightarrow>
                     if \<not> is_user (author p) u \<and> \<not> is_user (uploaded_by obj) u then Inl Http404
                     else Inr obj)))"

definition MediaDetailView_get :: "db \<Rightarrow> request_user \<Rightarrow> nat \<Rightarrow> nat \<Rightarrow> failure + media" where
  "MediaDetailView_get d u post_pk pk = MediaDetailView_get_object d u post_pk pk"

definition MediaDetailView_delete :: "db \<Rightarrow> request_user \<Rightarrow> nat \<Rightarrow> nat \<Rightarrow> (failure + unit) \<times> db" where
  "MediaDetailView_delete d u post_pk pk =
     (case MediaDetailView_get_object d u post_pk pk of
        Inl e \<Rightarrow> (Inl e, d)
      | Inr obj \<Rightarrow>
          (Inr (), d\<lparr>media_rows := filter (\<lambda>m. media_id m \<noteq> media_id obj) (media_rows d)\<rparr>))"

section \<open>Logout (users/views.py, logout\_view)\<close>

text \<open>
  The claims of a signed token. \<open>RefreshToken(token)\<close> is the library constructor the
  view calls: the token backend decodes the string (\<open>decode\<close>, kept abstract: \<open>None\<close>
  when the string is not a well-formed, correctly signed token), an expired token is
  refused, and \<open>verify()\<close> refuses a token whose identifier is on the blacklist or whose
  type is not \<open>refresh\<close>. Each refusal is the library's \<open>TokenError\<close>.
  \<open>token.blacklist()\<close> puts the identifier on the blacklist unless it is there.
\<close>

record token_payload =
  jti :: string
  exp :: nat
  token_type :: string

definition RefreshToken :: "(string \<Rightarrow> token_payload option) \<Rightarrow> nat \<Rightarrow> db \<Rightarrow> string \<Rightarrow> failure + token_payload" where
  "RefreshToken decode now d s =
     (case decode s of
        None \<Rightarrow> Inl TokenError
      | Some t \<Rightarrow>
          if exp t \<le> now then Inl TokenError
          else if jti t \<in> set (blacklisted d) then Inl TokenError
          else if token_type t \<noteq> ''refresh'' then Inl TokenError
          else Inr t)"

definition blacklist :: "token_payload \<Rightarrow> db \<Rightarrow> db" where
  "blacklist t d =
     (if jti t \<in> set (blacklisted d) then d else d\<lparr>blacklisted := blacklisted d @ [jti t]\<rparr>)"

text \<open>
  The view: \<open>request.data.get('refresh')\<close> is \<open>None\<close> or a string, and the empty
  string is falsy. Any exception becomes the 400 response \<open>Invalid token\<close>.
\<close>

definition logout_view ::
  "(string \<Rightarrow> token_payload option) \<Rightarrow> nat \<Rightarrow> db \<Rightarrow> request_user \<Rightarrow> string option \<Rightarrow> (failure + string) \<times> db" where
  "logout_view decode now d u refresh =
     (if \<not> is_authenticated u then (Inl NotAuthenticated, d)
      else (case refresh of
              None \<Rightarrow> (Inr ''Successfully logged out'', d)
            | Some s \<Rightarrow>
                if s = [] then (Inr ''Successfully logged out'', d)
                else (case RefreshToken decode now d s of
                        Inl e \<Rightarrow> (Inl (BadRequest ''Invalid token''), d)
                      | Inr t \<Rightarrow> (Inr ''Successfully logged out'', blacklist t d))))"

section \<open>Accounts (users/models.py, CustomUserManager)\<close>

text \<open>
  \<open>BaseUserManager.normalize_email\<close>, which \<open>create_user\<close> calls: the domain part is
  lowercased; an address with no \<open>@\<close> is returned as it is.
\<close>

definition normalize_email :: "string \<Rightarrow> string" where
  "normalize_email e =
     (case rsplit_at (strip e) of
        None \<Rightarrow> e
      | Some (email_name, domain_part) \<Rightarrow> email_name @ ''@'' @ lower domain_part)"

text \<open>
  \<open>create_user(email, password, **extra_fields)\<close>. \<open>user.save()\<close> fails with the
  store's \<open>IntegrityError\<close> when the address is in the table already: the column is
  declared \<open>unique=True\<close>. \<open>set_password(None)\<close> sets an unusable password.
\<close>

definition create_user ::
  "db \<Rightarrow> string \<Rightarrow> string option \<Rightarrow> string \<Rightarrow> string \<Rightarrow> failure + (user \<times> db)" where
  "create_user d e pw first_n last_n =
     (if e = [] then Inl ValueError
      else
        (let e' = normalize_email e;
             usr = \<lparr>user_id = next_user_id d, email = e',
                    password = (case pw of None \<Rightarrow> Unusable | Some raw \<Rightarrow> Hashed raw),
                    first_name = first_n, last_name = last_n, is_staff = False\<rparr>
         in if e' \<in> set (map email (users d)) then Inl IntegrityError
            else Inr (usr, d\<lparr>users := users d @ [usr], next_user_id := Suc (next_user_id d)\<rparr>)))"

definition check_password :: "user \<Rightarrow> string \<Rightarrow> bool" where
  "check_password usr raw = (password usr = Hashed raw)"

definition has_profile :: "db \<Rightarrow> nat \<Rightarrow> bool" where
  "has_profile d k = (k \<in> set (map profile_user (profiles d)))"

text \<open>
  \<open>Profile.objects.create(user=user, display_name=..., bio=...)\<close>; the one-to-one
  column is unique.
\<close>

definition Profile_create :: "db \<Rightarrow> nat \<Rightarrow> string \<Rightarrow> failure + db" where
  "Profile_create d k name =
     (if has_profile d k then Inl IntegrityError
      else Inr (d\<lparr>profiles := profiles d @ [\<lparr>profile_user = k, display_name = name, bio = []\<rparr>]\<rparr>))"

section \<open>Registration (users/serializers.py, UserRegistrationSerializer)\<close>

text \<open>
  The body of a registration request: each field is missing or a string.
  \<open>is_valid\<close> is \<open>serializer.is_valid\<close>. The three required fields are character
  fields (trimmed, not blank). The address must pass the framework's format check
  (\<open>validate_email\<close>, a parameter here), be at most 254 characters long and be new to
  the user table (the model column is unique, which gives the field a uniqueness
  validator). The password must pass \<open>validate_password\<close> (the configured password
  policy, a parameter here). The display name is optional; when given it is trimmed,
  must not be blank and is at most 150 characters long. When all fields pass, the
  \<open>validate\<close> hook compares the two passwords. Every refusal is a \<open>ValidationError\<close>.
\<close>

record registration_request =
  req_email :: "string option"
  req_password :: "string option"
  req_password_confirm :: "string option"
  req_display_name :: "string option"

record registration =
  reg_email :: string
  reg_password :: string
  reg_password_confirm :: string
  reg_display_name :: "string option"

definition validate :: "registration \<Rightarrow> failure + registration" where
  "validate attrs =
     (if reg_password attrs \<noteq> reg_password_confirm attrs then Inl ValidationError
      else Inr attrs)"

definition is_valid ::
  "(string \<Rightarrow> bool) \<Rightarrow> (string \<Rightarrow> bool) \<Rightarrow> db \<Rightarrow> registration_request \<Rightarrow> failure + registration" where
  "is_valid validate_password validate_email d req =
     (case CharField (req_email req) of
        Inl e \<Rightarrow> Inl e
      | Inr em \<Rightarrow>
          if \<not> validate_email em \<or> length em > 254 \<or> em \<in> set (map email (users d))
          then Inl ValidationError
          else
            (case CharField (req_password req) of
               Inl e \<Rightarrow> Inl e
             | Inr pw \<Rightarrow>
                 if \<not> validate_password pw then Inl ValidationError
                 else
                   (case CharField (req_password_confirm req) of
                      Inl e \<Rightarrow> Inl e
                    | Inr pw2 \<Rightarrow>
                        (case req_display_name req of
                           None \<Rightarrow>
                             validate \<lparr>reg_email = em, reg_password = pw,
                                       reg_password_confirm = pw2, reg_display_name = None\<rparr>
                         | Some n \<Rightarrow>
                             if strip n = [] \<or> length (strip n) > 150 then Inl ValidationError
                             else validate \<lparr>reg_email = em, reg_password = pw,
                                            reg_password_confirm = pw2,
                                            reg_display_name = Some (strip n)\<rparr>))))"

text \<open>
  \<open>create\<close> makes the account and its profile, in this order and with no transaction
  around them. \<open>register\<close> is \<open>RegisterView.create\<close> up to the saved account; the
  tokens it then signs for the account change nothing in the tables. The view catches
  nothing: what \<open>create\<close> raises leaves the view as raised.
\<close>

definition serializer_create :: "db \<Rightarrow> registration \<Rightarrow> (failure + user) \<times> db" where
  "serializer_create d validated_data =
     (let dn = (case reg_display_name validated_data of None \<Rightarrow> [] | Some n \<Rightarrow> n)
      in case create_user d (reg_email validated_data) (Some (reg_password validated_data)) [] [] of
           Inl e \<Rightarrow> (Inl e, d)
         | Inr (usr, d') \<Rightarrow>
             (case Profile_create d' (user_id usr)
                     (if dn \<noteq> [] then dn else split_at_first (email usr)) of
                Inl e \<Rightarrow> (Inl e, d')
              | Inr d'' \<Rightarrow> (Inr usr, d'')))"

definition register ::
  "(string \<Rightarrow> bool) \<Rightarrow> (string \<Rightarrow> bool) \<Rightarrow> db \<Rightarrow> registration_request \<Rightarrow> (failure + user) \<times> db" where
  "register validate_password validate_email d req =
     (case is_valid validate_password validate_email d req of
        Inl e \<Rightarrow> (Inl e, d)
      | Inr validated_data \<Rightarrow> serializer_create d validated_data)"

section \<open>Social login resolution (users/social\_auth.py)\<close>

text \<open>
  The provider's claims, read with \<open>dict.get\<close>: a key may be missing.
\<close>

record google_user_info =
  g_id :: "string option"
  g_email :: "string option"
  g_name :: "string option"
  g_given_name :: "string option"
  g_family_name :: "string option"

definition get_or :: "string option \<Rightarrow> string \<Rightarrow> string" where
  "get_or v dflt = (case v of None \<Rightarrow> dflt | Some s \<Rightarrow> s)"

text \<open>
  \<open>SocialAccount.objects.create(user=user, provider='google', uid=google_id, ...)\<close>; the
  pair of provider and uid is unique in the table.
\<close>

definition SocialAccount_create :: "db \<Rightarrow> nat \<Rightarrow> string \<Rightarrow> failure + db" where
  "SocialAccount_create d k gid =
     (if (''google'', gid) \<in> set (map (\<lambda>s. (sa_provider s, sa_uid s)) (social_accounts d))
      then Inl IntegrityError
      else Inr (d\<lparr>social_accounts := social_accounts d @
                    [\<lparr>sa_user = k, sa_provider = ''google'', sa_uid = gid\<rparr>]\<rparr>))"

definition google_display_name :: "google_user_info \<Rightarrow> string \<Rightarrow> string \<Rightarrow> string \<Rightarrow> string" where
  "google_display_name info first_n last_n e =
     (let name = get_or (g_name info) [];
          name = (if name = [] then strip (first_n @ '' '' @ last_n) else name);
          name = (if name = [] then split_at_first e else name)
      in name)"

definition create_user_from_google :: "db \<Rightarrow> google_user_info \<Rightarrow> (failure + user) \<times> db" where
  "create_user_from_google d info =
     (let e = get_or (g_email info) [];
          first_n = get_or (g_given_name info) [];
          last_n = get_or (g_family_name info) [];
          gid = get_or (g_id info) []
      in case create_user d e None first_n last_n of
           Inl err \<Rightarrow> (Inl err, d)
         | Inr (usr, d1) \<Rightarrow>
             (case SocialAccount_create d1 (user_id usr) gid of
                Inl err \<Rightarrow> (Inl err, d1)
              | Inr d2 \<Rightarrow>
                  if \<not> has_profile d2 (user_id usr) then
                    (case Profile_create d2 (user_id usr) (google_display_name info first_n last_n e) of
                       Inl err \<Rightarrow> (Inl err, d2)
                     | Inr d3 \<Rightarrow> (Inr usr, d3))
                  else
                    (Inr usr,
                     d2\<lparr>profiles :=
                          map (\<lambda>p. if profile_user p = user_id usr \<and> display_name p = []
                                    then p\<lparr>display_name := google_display_name info first_n last_n e\<rparr>
                                    else p) (profiles d2)\<rparr>)))"

text \<open>
  \<open>get_or_create_user_from_google\<close>. The two \<open>objects.get\<close> calls find no row
  (\<open>DoesNotExist\<close>, caught by the code), one row, or several
  (\<open>MultipleObjectsReturned\<close>). \<open>social_account.user\<close> follows the foreign key.
\<close>

definition get_or_create_user_from_google ::
  "db \<Rightarrow> google_user_info \<Rightarrow> (failure + user \<times> bool) \<times> db" where
  "get_or_create_user_from_google d info =
     (let e = get_or (g_email info) []; gid = get_or (g_id info) []
      in if e = [] \<or> gid = [] then (Inl ValueError, d)
         else
           (case filter (\<lambda>s. sa_provider s = ''google'' \<and> sa_uid s = gid) (social_accounts d) of
              [s] \<Rightarrow>
                (case find (\<lambda>usr. user_id usr = sa_user s) (users d) of
                   None \<Rightarrow> (Inl DoesNotExist, d)
                 | Some usr \<Rightarrow> (Inr (usr, False), d))
            | _ # _ # _ \<Rightarrow> (Inl MultipleObjectsReturned, d)
            | [] \<Rightarrow>
                (case filter (\<lambda>usr. email usr = e) (users d) of
                   [usr] \<Rightarrow>
                     (case SocialAccount_create d (user_id usr) gid of
                        Inl err \<Rightarrow> (Inl err, d)
                      | Inr d' \<Rightarrow> (Inr (usr, False), d'))
                 | _ # _ # _ \<Rightarrow> (Inl MultipleObjectsReturned, d)
                 | [] \<Rightarrow>
                     (case create_user_from_google d info of
                        (Inl err, d') \<Rightarrow> (Inl err, d')
                      | (Inr usr, d') \<Rightarrow> (Inr (usr, True), d')))))"

section \<open>Example data\<close>

text \<open>
  A small database for the concrete instances below: Alice and Bob are ordinary
  accounts, Carol is staff. Alice owns a public and a private post, Bob a private one.
  Alice commented on her public post, Bob uploaded a file to it and Alice likes it.
\<close>

definition alice :: user where
  "alice = \<lparr>user_id = 1, email = ''alice@example.com'', password = Hashed ''Passw0rd!'',
            first_name = [], last_name = [], is_staff = False\<rparr>"

definition bob :: user where
  "bob = \<lparr>user_id = 2, email = ''bob@example.com'', password = Hashed ''hunter22!'',
          first_name = [], last_name = [], is_staff = False\<rparr>"

definition carol :: user where
  "carol = \<lparr>user_id = 3, email = ''carol@example.com'', password = Hashed ''Adm1n!pass'',
            first_name = [], last_name = [], is_staff = True\<rparr>"

definition alice_public :: post where
  "alice_public = \<lparr>post_id = 10, author = 1, content = ''Visible'', post_privacy = Public\<rparr>"

definition alice_private :: post where
  "alice_private = \<lparr>post_id = 11, author = 1, content = ''Hidden'', post_privacy = Private\<rparr>"

definition bob_private :: post where
  "bob_private = \<lparr>post_id = 12, author = 2, content = ''Mine'', post_privacy = Private\<rparr>"

definition alice_comment :: comment where
  "alice_comment = \<lparr>comment_id = 1, comment_post = 10, comment_author = 1, comment_text = ''Nice'',
                    comment_parent = None\<rparr>"

definition bob_media :: media where
  "bob_media = \<lparr>media_id = 1, media_post = 10, media_file = ''posts/10/test.txt'',
                media_content_type = ''text/plain'', media_size = 5,
                media_width = None, media_height = None, uploaded_by = 2\<rparr>"

definition db0 :: db where
  "db0 = \<lparr>users = [alice, bob, carol],
          profiles = [\<lparr>profile_user = 1, display_name = ''alice'', bio = []\<rparr>,
                      \<lparr>profile_user = 2, display_name = ''bob'', bio = []\<rparr>,
                      \<lparr>profile_user = 3, display_name = ''carol'', bio = []\<rparr>],
          social_accounts = [],
          posts = [alice_public, alice_private, bob_private],
          comments = [alice_comment],
          media_rows = [bob_media],
          likes = [\<lparr>like_post = 10, like_user = 1\<rparr>],
          blacklisted = [],
          next_user_id = 4, next_comment_id = 2, next_media_id = 2\<rparr>"

text \<open>Two comment requests, one with a text and one blank, and an edit of a post.\<close>

definition nice_comment :: comment_data where
  "nice_comment = \<lparr>data_text = Some ''Unauthorized comment'', data_parent = None\<rparr>"

definition blank_comment :: comment_data where
  "blank_comment = \<lparr>data_text = Some '' '', data_parent = None\<rparr>"

definition edit0 :: post_data where
  "edit0 = \<lparr>new_content = ''Hacked content'', new_privacy = Public\<rparr>"

text \<open>
  Media settings and three uploads: a PNG image that decodes, a binary file of a type
  that is not allowed, and a text file one byte over the size bound.
\<close>

definition cfg0 :: settings where
  "cfg0 = \<lparr>MEDIA_MAX_SIZE = 5242880,
           MEDIA_ALLOWED_CONTENT_TYPES = [''image/jpeg'', ''image/png'', ''text/plain'']\<rparr>"

definition png_file :: uploaded_file where
  "png_file = \<lparr>upload_name = ''img.png'', upload_size = 75,
               upload_content_type = Some ''image/png'', image_size = Some (10, 10)\<rparr>"

definition bin_file :: uploaded_file where
  "bin_file = \<lparr>upload_name = ''file.bin'', upload_size = 10,
               upload_content_type = Some ''application/octet-stream'', image_size = None\<rparr>"

definition big_file :: uploaded_file where
  "big_file = \<lparr>upload_name = ''big.txt'', upload_size = 5242881,
               upload_content_type = Some ''text/plain'', image_size = None\<rparr>"

text \<open>A small text file whose name has no character a file name may keep.\<close>

definition bang_file :: uploaded_file where
  "bang_file = \<lparr>upload_name = ''!!!'', upload_size = 5,
                upload_content_type = Some ''text/plain'', image_size = None\<rparr>"

text \<open>
  A token backend that knows one refresh token, expiring at time 1000; a password
  policy (at least eight characters) and an address format check (an \<open>@\<close> somewhere);
  two registration requests, the second with Alice's address, the domain in capitals;
  and the claims of a Google account with that same address.
\<close>

definition decode0 :: "string \<Rightarrow> token_payload option" where
  "decode0 s =
     (if s = ''refresh.alice.1''
      then Some \<lparr>jti = ''jti-1'', exp = 1000, token_type = ''refresh''\<rparr>
      else None)"

definition policy0 :: "string \<Rightarrow> bool" where
  "policy0 pw = (8 \<le> length pw)"

definition format0 :: "string \<Rightarrow> bool" where
  "format0 e = (CHR ''@'' \<in> set e)"

definition dave_req :: registration_request where
  "dave_req = \<lparr>req_email = Some ''dave@example.com'', req_password = Some ''testpass123'',
               req_password_confirm = Some ''testpass123'',
               req_display_name = Some ''Test User''\<rparr>"

definition dave :: user where
  "dave = \<lparr>user_id = 4, email = ''dave@example.com'', password = Hashed ''testpass123'',
           first_name = [], last_name = [], is_staff = False\<rparr>"

definition alice_again_req :: registration_request where
  "alice_again_req = \<lparr>req_email = Some ''alice@EXAMPLE.COM'', req_password = Some ''testpass123'',
                      req_password_confirm = Some ''testpass123'', req_display_name = None\<rparr>"

definition padded_req :: registration_request where
  "padded_req = \<lparr>req_email = Some ''dave@example.com'', req_password = Some '' testpass123 '',
                 req_password_confirm = Some '' testpass123 '', req_display_name = None\<rparr>"

definition google_alice :: google_user_info where
  "google_alice = \<lparr>g_id = Some ''g1'', g_email = Some ''alice@EXAMPLE.COM'',
                   g_name = Some ''Alice'', g_given_name = None, g_family_name = None\<rparr>"

lemmas ex_defs = alice_def bob_def carol_def alice_public_def alice_private_def bob_private_def
  alice_comment_def bob_media_def db0_def cfg0_def png_file_def bin_file_def big_file_def
  bang_file_def

section \<open>Lookups by primary key\<close>

text \<open>Primary keys are unique in a table; under that, a lookup by key finds the row.\<close>

lemma find_by_post_id:
  "distinct (map post_id ps) \<Longrightarrow> p \<in> set ps \<Longrightarrow> find (\<lambda>q. post_id q = post_id p) ps = Some p"
  by (induction ps) (auto simp: rev_image_eqI)

lemma find_hidden:
  assumes "distinct (map post_id ps)" "p \<in> set ps" "\<not> P p"
  shows "find (\<lambda>q. post_id q = post_id p) (filter P ps) = None"
proof -
  have "\<And>q. q \<in> set ps \<Longrightarrow> post_id q = post_id p \<Longrightarrow> q = p"
    using assms(1,2) by (meson distinct_map inj_on_eq_iff)
  with assms(3) show ?thesis by (auto simp: find_None_iff)
qed

lemma find_missing:
  "k \<notin> set (map post_id ps) \<Longrightarrow> find (\<lambda>q. post_id q = k) (filter P ps) = None"
  by (auto simp: find_None_iff)

lemma find_by_comment_id:
  "distinct (map comment_id cs) \<Longrightarrow> c \<in> set cs \<Longrightarrow> find (\<lambda>q. comment_id q = comment_id c) cs = Some c"
  by (induction cs) (auto simp: rev_image_eqI)

lemma find_by_media_id:
  "distinct (map media_id ms) \<Longrightarrow> m \<in> set ms \<Longrightarrow> find (\<lambda>q. media_id q = media_id m) ms = Some m"
  by (induction ms) (auto simp: rev_image_eqI)

lemma find_by_user_id:
  "distinct (map user_id us) \<Longrightarrow> usr \<in> set us \<Longrightarrow> find (\<lambda>q. user_id q = user_id usr) us = Some usr"
  by (induction us) (auto simp: rev_image_eqI)

lemma find_after:
  "find P xs = None \<Longrightarrow> find P (xs @ ys) = find P ys"
  by (induction xs) (auto split: if_splits)

section \<open>Listing posts\<close>

text \<open>
  Claim C3. Listing posts as an authenticated principal returns the queryset of
  \<open>get_queryset\<close>. For a staff principal that is the whole table, with no filter. For
  a principal that is not staff it holds exactly the public posts together with the
  posts the principal owns, and so no private post of anybody else.
\<close>

theorem list_posts_visibility:
  "list_posts d (Authenticated a) = Inr (get_queryset d (Authenticated a)) \<and>
   (is_staff a \<longrightarrow> get_queryset d (Authenticated a) = posts d) \<and>
   (\<not> is_staff a \<longrightarrow>
      set (get_queryset d (Authenticated a)) =
        {p \<in> set (posts d). post_privacy p = Public} \<union> {p \<in> set (posts d). author p = user_id a} \<and>
      (\<forall>p \<in> set (get_queryset d (Authenticated a)). post_privacy p = Private \<longrightarrow> author p = user_id a))"
  by (auto simp: list_posts_def get_queryset_def)

theorem list_posts_visibility_witness:
  "\<not> is_staff bob \<and> is_staff carol \<and>
   list_posts db0 (Authenticated bob) = Inr [alice_public, bob_private] \<and>
   list_posts db0 (Authenticated carol) = Inr [alice_public, alice_private, bob_private] \<and>
   set (get_queryset db0 (Authenticated bob)) =
     {p \<in> set (posts db0). post_privacy p = Public} \<union> {p \<in> set (posts db0). author p = user_id bob} \<and>
   alice_private \<notin> set (get_queryset db0 (Authenticated bob))"
  using list_posts_visibility [of db0 bob] list_posts_visibility [of db0 carol]
  by (simp add: ex_defs get_queryset_def)

section \<open>Private posts are indistinguishable from missing ones\<close>

text \<open>
  Claim C1. Let \<open>p\<close> be a private post in the table and \<open>a\<close> an account that is neither
  its author nor staff. Retrieving \<open>p\<close> by its id and liking it fail with \<open>Http404\<close>
  and leave the database as it was, and so does creating a comment on it with a body
  the comment serializer accepts: the same outcome as for an id that no post has. For
  any body at all, accepted or not, the comment request on \<open>p\<close> has the outcome it has
  on a missing id, and that is never \<open>PermissionDenied\<close>.
\<close>

theorem private_post_not_found:
  assumes "distinct (map post_id (posts d))" and "p \<in> set (posts d)"
    and "post_privacy p = Private" and "\<not> is_staff a" and "author p \<noteq> user_id a"
    and "missing \<notin> set (map post_id (posts d))"
    and "CommentSerializer_is_valid d dat = Inr v"
  shows "retrieve d (Authenticated a) (post_id p) = Inl Http404 \<and>
         retrieve d (Authenticated a) missing = Inl Http404 \<and>
         like d (Authenticated a) (post_id p) = (Inl Http404, d) \<and>
         like d (Authenticated a) missing = (Inl Http404, d) \<and>
         create_comment d (Authenticated a) (post_id p) dat = (Inl Http404, d) \<and>
         create_comment d (Authenticated a) missing dat = (Inl Http404, d) \<and>
         create_comment d (Authenticated a) (post_id p) dat' =
           create_comment d (Authenticated a) missing dat' \<and>
         fst (create_comment d (Authenticated a) (post_id p) dat') \<noteq> Inl PermissionDenied"
proof -
  let ?vis = "\<lambda>q. post_privacy q = Public \<or> author q = user_id a"
  have qs: "get_queryset d (Authenticated a) = filter ?vis (posts d)"
    using assms(4) by (simp add: get_queryset_def)
  have hid: "get_object_or_404 (get_queryset d (Authenticated a)) (post_id p) = Inl Http404"
    unfolding qs get_object_or_404_def
    using find_hidden [OF assms(1,2), of ?vis] assms(3,5) by simp
  have mis: "get_object_or_404 (get_queryset d (Authenticated a)) missing = Inl Http404"
    unfolding qs get_object_or_404_def using find_missing [OF assms(6), of ?vis] by simp
  have fp: "find (\<lambda>q. post_id q = post_id p) (posts d) = Some p"
    using find_by_post_id [OF assms(1,2)] .
  have fm: "find (\<lambda>q. post_id q = missing) (posts d) = None"
    using assms(6) by (auto simp: find_None_iff)
  have pc: "perform_create d (Authenticated a) (post_id p) w = (Inl Http404, d)"
    "perform_create d (Authenticated a) missing w = (Inl Http404, d)" for w
    using fp fm assms(3,5) by (simp_all add: perform_create_def)
  have any: "create_comment d (Authenticated a) (post_id p) dat' =
      create_comment d (Authenticated a) missing dat'"
    "fst (create_comment d (Authenticated a) (post_id p) dat') \<noteq> Inl PermissionDenied"
    by (auto simp: create_comment_def pc CommentSerializer_is_valid_def CharField_def
        split: sum.splits option.splits if_splits)
  show ?thesis
    using hid mis pc any assms(7)
    by (simp add: retrieve_def PostViewSet_get_object_def like_def create_comment_def)
qed

theorem private_post_not_found_witness:
  "distinct (map post_id (posts db0)) \<and> alice_private \<in> set (posts db0) \<and>
   post_privacy alice_private = Private \<and> \<not> is_staff bob \<and> author alice_private \<noteq> user_id bob \<and>
   99 \<notin> set (map post_id (posts db0)) \<and>
   CommentSerializer_is_valid db0 nice_comment =
     Inr \<lparr>valid_text = ''Unauthorized comment'', valid_parent = None\<rparr> \<and>
   retrieve db0 (Authenticated bob) 11 = Inl Http404 \<and>
   retrieve db0 (Authenticated bob) 99 = Inl Http404 \<and>
   like db0 (Authenticated bob) 11 = (Inl Http404, db0) \<and>
   like db0 (Authenticated bob) 99 = (Inl Http404, db0) \<and>
   create_comment db0 (Authenticated bob) 11 nice_comment = (Inl Http404, db0) \<and>
   create_comment db0 (Authenticated bob) 99 nice_comment = (Inl Http404, db0) \<and>
   create_comment db0 (Authenticated bob) 11 blank_comment =
     create_comment db0 (Authenticated bob) 99 blank_comment"
proof -
  have h: "distinct (map post_id (posts db0))" "alice_private \<in> set (posts db0)"
    "post_privacy alice_private = Private" "\<not> is_staff bob" "author alice_private \<noteq> user_id bob"
    "99 \<notin> set (map post_id (posts db0))"
    by (simp_all add: ex_defs)
  have s: "strip ''Unauthorized comment'' = ''Unauthorized comment''"
    by code_simp
  have v: "CommentSerializer_is_valid db0 nice_comment =
     Inr \<lparr>valid_text = ''Unauthorized comment'', valid_parent = None\<rparr>"
    by (simp add: CommentSerializer_is_valid_def CharField_def nice_comment_def s)
  have "post_id alice_private = 11" by (simp add: ex_defs)
  with private_post_not_found [OF h v, of blank_comment] h v show ?thesis by simp
qed

section \<open>Object-level write permission\<close>

lemma unsafe_permission:
  "m \<notin> SAFE_METHODS \<Longrightarrow> has_object_permission m (Some k) (Authenticated a) = (k = user_id a)"
  by (simp add: has_object_permission_def)

lemma DELETE_unsafe: "DELETE \<notin> SAFE_METHODS"
  by (simp add: SAFE_METHODS_def)

text \<open>
  Claim C8, as the code has it. For a post the account can see (it is in the account's
  queryset) and for a comment of the addressed post, a request with an unsafe method is
  granted if and only if the account is the author; the staff flag plays no part, the
  denial is \<open>PermissionDenied\<close> and a denied request leaves the database unchanged. A
  media row is not under that rule: deleting it is granted if and only if the account is
  the author of the parent post or the uploader of the row, and everybody else, staff
  too, gets \<open>Http404\<close>.
\<close>

theorem write_by_author_or_uploader:
  "(distinct (map post_id (posts d)) \<and> p \<in> set (get_queryset d (Authenticated a)) \<and>
    m \<notin> SAFE_METHODS \<longrightarrow>
      has_object_permission m (Some (author p)) (Authenticated a) = (author p = user_id a) \<and>
      PostViewSet_get_object m d (Authenticated a) (post_id p) =
        (if author p = user_id a then Inr p else Inl PermissionDenied) \<and>
      update m d (Authenticated a) (post_id p) dat =
        (if author p = user_id a
         then (Inr (p\<lparr>content := new_content dat, post_privacy := new_privacy dat\<rparr>),
               save_post (p\<lparr>content := new_content dat, post_privacy := new_privacy dat\<rparr>) d)
         else (Inl PermissionDenied, d)) \<and>
      destroy d (Authenticated a) (post_id p) =
        (if author p = user_id a then (Inr (), delete_post p d) else (Inl PermissionDenied, d))) \<and>
   (distinct (map comment_id (comments d)) \<and> c \<in> set (CommentViewSet_get_queryset d post_pk) \<and>
    m \<notin> SAFE_METHODS \<longrightarrow>
      CommentViewSet_get_object m d (Authenticated a) post_pk (comment_id c) =
        (if comment_author c = user_id a then Inr c else Inl PermissionDenied) \<and>
      fst (destroy_comment d (Authenticated a) post_pk (comment_id c)) =
        (if comment_author c = user_id a then Inr () else Inl PermissionDenied)) \<and>
   (distinct (map media_id (media_rows d)) \<and> distinct (map post_id (posts d)) \<and>
    obj \<in> set (media_rows d) \<and> q \<in> set (posts d) \<and> post_id q = media_post obj \<longrightarrow>
      MediaDetailView_delete d (Authenticated a) (media_post obj) (media_id obj) =
        (if author q = user_id a \<or> uploaded_by obj = user_id a
         then (Inr (), d\<lparr>media_rows := filter (\<lambda>x. media_id x \<noteq> media_id obj) (media_rows d)\<rparr>)
         else (Inl Http404, d)))"
proof -
  have posts_part:
    "has_object_permission m (Some (author p)) (Authenticated a) = (author p = user_id a) \<and>
      PostViewSet_get_object m d (Authenticated a) (post_id p) =
        (if author p = user_id a then Inr p else Inl PermissionDenied) \<and>
      update m d (Authenticated a) (post_id p) dat =
        (if author p = user_id a
         then (Inr (p\<lparr>content := new_content dat, post_privacy := new_privacy dat\<rparr>),
               save_post (p\<lparr>content := new_content dat, post_privacy := new_privacy dat\<rparr>) d)
         else (Inl PermissionDenied, d)) \<and>
      destroy d (Authenticated a) (post_id p) =
        (if author p = user_id a then (Inr (), delete_post p d) else (Inl PermissionDenied, d))"
    if ids: "distinct (map post_id (posts d))" and vis: "p \<in> set (get_queryset d (Authenticated a))"
      and un: "m \<notin> SAFE_METHODS"
  proof -
    have dq: "distinct (map post_id (get_queryset d (Authenticated a)))"
      using ids by (simp add: get_queryset_def distinct_map_filter)
    have gp: "get_object_or_404 (get_queryset d (Authenticated a)) (post_id p) = Inr p"
      using find_by_post_id [OF dq vis] by (simp add: get_object_or_404_def)
    have obj: "PostViewSet_get_object n d (Authenticated a) (post_id p) =
        (if author p = user_id a then Inr p else Inl PermissionDenied)" if "n \<notin> SAFE_METHODS" for n
      using gp that by (simp add: PostViewSet_get_object_def unsafe_permission)
    show ?thesis
      using obj [OF un] obj [OF DELETE_unsafe] un
      by (simp add: unsafe_permission update_def destroy_def Let_def)
  qed
  have comments_part:
    "CommentViewSet_get_object m d (Authenticated a) post_pk (comment_id c) =
        (if comment_author c = user_id a then Inr c else Inl PermissionDenied) \<and>
     fst (destroy_comment d (Authenticated a) post_pk (comment_id c)) =
        (if comment_author c = user_id a then Inr () else Inl PermissionDenied)"
    if ids: "distinct (map comment_id (comments d))"
      and vis: "c \<in> set (CommentViewSet_get_queryset d post_pk)" and un: "m \<notin> SAFE_METHODS"
  proof -
    have dc: "distinct (map comment_id (CommentViewSet_get_queryset d post_pk))"
      using ids by (simp add: CommentViewSet_get_queryset_def distinct_map_filter)
    have gc: "find (\<lambda>x. comment_id x = comment_id c) (CommentViewSet_get_queryset d post_pk) = Some c"
      using find_by_comment_id [OF dc vis] .
    have cobj: "CommentViewSet_get_object n d (Authenticated a) post_pk (comment_id c) =
        (if comment_author c = user_id a then Inr c else Inl PermissionDenied)" if "n \<notin> SAFE_METHODS" for n
      using gc that by (simp add: CommentViewSet_get_object_def unsafe_permission)
    show ?thesis
      using cobj [OF un] cobj [OF DELETE_unsafe] by (simp add: destroy_comment_def)
  qed
  have media_part:
    "MediaDetailView_delete d (Authenticated a) (media_post obj) (media_id obj) =
        (if author q = user_id a \<or> uploaded_by obj = user_id a
         then (Inr (), d\<lparr>media_rows := filter (\<lambda>x. media_id x \<noteq> media_id obj) (media_rows d)\<rparr>)
         else (Inl Http404, d))"
    if mids: "distinct (map media_id (media_rows d))" and pids: "distinct (map post_id (posts d))"
      and row: "obj \<in> set (media_rows d)" and par: "q \<in> set (posts d)" "post_id q = media_post obj"
  proof -
    let ?qs = "filter (\<lambda>x. media_post x = media_post obj) (media_rows d)"
    have "distinct (map media_id ?qs)" using mids by (simp add: distinct_map_filter)
    moreover have "obj \<in> set ?qs" using row by simp
    ultimately have fm: "find (\<lambda>x. media_id x = media_id obj) ?qs = Some obj"
      by (rule find_by_media_id)
    have fp: "find (\<lambda>x. post_id x = media_post obj) (posts d) = Some q"
      using find_by_post_id [OF pids par(1)] par(2) by simp
    have g: "MediaDetailView_get_object d (Authenticated a) (media_post obj) (media_id obj) =
        (if author q = user_id a \<or> uploaded_by obj = user_id a then Inr obj else Inl Http404)"
      using fm fp by (simp add: MediaDetailView_get_object_def)
    show ?thesis
      unfolding MediaDetailView_delete_def g by simp
  qed
  show ?thesis
    using posts_part comments_part media_part by blast
qed

theorem write_by_author_or_uploader_witness:
  "distinct (map post_id (posts db0)) \<and> distinct (map comment_id (comments db0)) \<and>
   distinct (map media_id (media_rows db0)) \<and>
   alice_public \<in> set (get_queryset db0 (Authenticated carol)) \<and>
   alice_public \<in> set (get_queryset db0 (Authenticated alice)) \<and>
   alice_comment \<in> set (CommentViewSet_get_queryset db0 10) \<and>
   bob_media \<in> set (media_rows db0) \<and> alice_public \<in> set (posts db0) \<and>
   post_id alice_public = media_post bob_media \<and>
   PATCH \<notin> SAFE_METHODS \<and> is_staff carol \<and> author alice_public \<noteq> user_id carol \<and>
   PostViewSet_get_object PATCH db0 (Authenticated carol) 10 = Inl PermissionDenied \<and>
   update PATCH db0 (Authenticated carol) 10 edit0 = (Inl PermissionDenied, db0) \<and>
   destroy db0 (Authenticated carol) 10 = (Inl PermissionDenied, db0) \<and>
   CommentViewSet_get_object PATCH db0 (Authenticated carol) 10 1 = Inl PermissionDenied \<and>
   PostViewSet_get_object PATCH db0 (Authenticated alice) 10 = Inr alice_public \<and>
   CommentViewSet_get_object PATCH db0 (Authenticated alice) 10 1 = Inr alice_comment \<and>
   MediaDetailView_delete db0 (Authenticated carol) 10 1 = (Inl Http404, db0) \<and>
   MediaDetailView_delete db0 (Authenticated alice) 10 1 = (Inr (), db0\<lparr>media_rows := []\<rparr>)"
proof -
  have h: "distinct (map post_id (posts db0))" "distinct (map comment_id (comments db0))"
    "distinct (map media_id (media_rows db0))"
    "alice_comment \<in> set (CommentViewSet_get_queryset db0 10)" "PATCH \<notin> SAFE_METHODS"
    "bob_media \<in> set (media_rows db0)" "alice_public \<in> set (posts db0)"
    "post_id alice_public = media_post bob_media"
    by (simp_all add: ex_defs CommentViewSet_get_queryset_def SAFE_METHODS_def)
  have c: "alice_public \<in> set (get_queryset db0 (Authenticated carol))"
    and a: "alice_public \<in> set (get_queryset db0 (Authenticated alice))"
    by (simp_all add: ex_defs get_queryset_def)
  have e: "post_id alice_public = 10" "comment_id alice_comment = 1" "is_staff carol"
    "author alice_public \<noteq> user_id carol" "author alice_public = user_id alice"
    "comment_author alice_comment \<noteq> user_id carol" "comment_author alice_comment = user_id alice"
    "media_post bob_media = 10" "media_id bob_media = 1" "uploaded_by bob_media \<noteq> user_id carol"
    "filter (\<lambda>x. media_id x \<noteq> 1) (media_rows db0) = []"
    by (simp_all add: ex_defs)
  note staff = write_by_author_or_uploader [where d = db0 and p = alice_public and a = carol
      and m = PATCH and dat = edit0 and c = alice_comment and post_pk = 10 and obj = bob_media
      and q = alice_public]
  note owner = write_by_author_or_uploader [where d = db0 and p = alice_public and a = alice
      and m = PATCH and dat = edit0 and c = alice_comment and post_pk = 10 and obj = bob_media
      and q = alice_public]
  from staff h c
  have s1: "PostViewSet_get_object PATCH db0 (Authenticated carol) (post_id alice_public) =
        (if author alice_public = user_id carol then Inr alice_public else Inl PermissionDenied)"
    and s2: "update PATCH db0 (Authenticated carol) (post_id alice_public) edit0 =
        (if author alice_public = user_id carol
         then (Inr (alice_public\<lparr>content := new_content edit0, post_privacy := new_privacy edit0\<rparr>),
               save_post (alice_public\<lparr>content := new_content edit0, post_privacy := new_privacy edit0\<rparr>) db0)
         else (Inl PermissionDenied, db0))"
    and s3: "destroy db0 (Authenticated carol) (post_id alice_public) =
        (if author alice_public = user_id carol then (Inr (), delete_post alice_public db0)
         else (Inl PermissionDenied, db0))"
    and s4: "CommentViewSet_get_object PATCH db0 (Authenticated carol) 10 (comment_id alice_comment) =
        (if comment_author alice_comment = user_id carol then Inr alice_comment
         else Inl PermissionDenied)"
    and s5: "MediaDetailView_delete db0 (Authenticated carol) (media_post bob_media) (media_id bob_media) =
        (if author alice_public = user_id carol \<or> uploaded_by bob_media = user_id carol
         then (Inr (), db0\<lparr>media_rows := filter (\<lambda>x. media_id x \<noteq> media_id bob_media) (media_rows db0)\<rparr>)
         else (Inl Http404, db0))"
    by blast+
  from owner h a
  have o1: "PostViewSet_get_object PATCH db0 (Authenticated alice) (post_id alice_public) =
        (if author alice_public = user_id alice then Inr alice_public else Inl PermissionDenied)"
    and o4: "CommentViewSet_get_object PATCH db0 (Authenticated alice) 10 (comment_id alice_comment) =
        (if comment_author alice_comment = user_id alice then Inr alice_comment
         else Inl PermissionDenied)"
    and o5: "MediaDetailView_delete db0 (Authenticated alice) (media_post bob_media) (media_id bob_media) =
        (if author alice_public = user_id alice \<or> uploaded_by bob_media = user_id alice
         then (Inr (), db0\<lparr>media_rows := filter (\<lambda>x. media_id x \<noteq> media_id bob_media) (media_rows db0)\<rparr>)
         else (Inl Http404, db0))"
    by blast+
  show ?thesis
    using s1 s2 s3 s4 s5 o1 o4 o5 h c a e by simp
qed

theorem write_by_owner_counterexample:
  "bob_media \<in> set (media_rows db0) \<and> alice_public \<in> set (posts db0) \<and>
   media_post bob_media = post_id alice_public \<and>
   author alice_public = user_id alice \<and> uploaded_by bob_media = user_id bob \<and>
   user_id alice \<noteq> user_id bob \<and>
   MediaDetailView_get db0 (Authenticated alice) 10 1 = Inr bob_media \<and>
   MediaDetailView_get db0 (Authenticated bob) 10 1 = Inr bob_media \<and>
   MediaDetailView_delete db0 (Authenticated alice) 10 1 = (Inr (), db0\<lparr>media_rows := []\<rparr>) \<and>
   MediaDetailView_delete db0 (Authenticated bob) 10 1 = (Inr (), db0\<lparr>media_rows := []\<rparr>) \<and>
   is_staff carol \<and> post_privacy alice_public = Public \<and>
   MediaDetailView_delete db0 (Authenticated carol) 10 1 = (Inl Http404, db0)"
  by (simp add: ex_defs MediaDetailView_get_def MediaDetailView_delete_def
      MediaDetailView_get_object_def)

section \<open>The like toggle\<close>

lemma like_eta: "\<lparr>like_post = like_post x, like_user = like_user x\<rparr> = (x::like)"
  by (cases x) simp

lemma like_mem_iff:
  "(\<lparr>like_post = p, like_user = k\<rparr> \<in> set ls) \<longleftrightarrow> (\<exists>x\<in>set ls. like_post x = p \<and> like_user x = k)"
proof
  assume "\<lparr>like_post = p, like_user = k\<rparr> \<in> set ls"
  then show "\<exists>x\<in>set ls. like_post x = p \<and> like_user x = k"
    by (rule rev_bexI) simp
next
  assume "\<exists>x\<in>set ls. like_post x = p \<and> like_user x = k"
  then obtain x where x: "x \<in> set ls" and f: "like_post x = p" "like_user x = k" by blast
  from f have "x = \<lparr>like_post = p, like_user = k\<rparr>" by (cases x) simp
  with x show "\<lparr>like_post = p, like_user = k\<rparr> \<in> set ls" by simp
qed

lemma count_is_card:
  assumes "distinct ls"
  shows "length (filter (\<lambda>l. like_post l = p) ls) = card {k. \<lparr>like_post = p, like_user = k\<rparr> \<in> set ls}"
proof -
  let ?fs = "filter (\<lambda>l. like_post l = p) ls"
  have img: "{k. \<lparr>like_post = p, like_user = k\<rparr> \<in> set ls} = like_user ` set ?fs"
    by (auto simp: like_mem_iff image_iff)
  have inj: "inj_on like_user (set ?fs)"
    by (auto simp: inj_on_def)
  have "distinct ?fs" using assms by simp
  then have "length ?fs = card (set ?fs)" by (rule distinct_card [symmetric])
  also have "\<dots> = card (like_user ` set ?fs)" using inj by (rule card_image [symmetric])
  finally show ?thesis unfolding img .
qed

text \<open>
  Claim C2. Let an account see a post and hold no like on it, in a table whose rows are
  unique (\<open>unique_together\<close>). Two toggles in a row answer \<open>liked = True\<close> and then
  \<open>liked = False\<close>, the second restores the database, the rows stay unique, and each
  reported count is the number of distinct accounts holding a like on the post in the
  state reached.
\<close>

theorem like_toggle_twice:
  assumes vis: "get_object_or_404 (get_queryset d (Authenticated a)) pk = Inr p"
    and uniq: "distinct (likes d)"
    and fresh: "\<lparr>like_post = post_id p, like_user = user_id a\<rparr> \<notin> set (likes d)"
  shows "\<exists>r1 d1 r2 d2.
           like d (Authenticated a) pk = (Inr r1, d1) \<and>
           like d1 (Authenticated a) pk = (Inr r2, d2) \<and>
           liked r1 \<and> \<not> liked r2 \<and> d2 = d \<and>
           distinct (likes d1) \<and> distinct (likes d2) \<and>
           likes_count r1 = card {k. \<lparr>like_post = post_id p, like_user = k\<rparr> \<in> set (likes d1)} \<and>
           likes_count r2 = card {k. \<lparr>like_post = post_id p, like_user = k\<rparr> \<in> set (likes d2)} \<and>
           likes_count r1 = Suc (likes_count r2)"
proof -
  let ?l = "\<lparr>like_post = post_id p, like_user = user_id a\<rparr>"
  let ?d1 = "d\<lparr>likes := likes d @ [?l]\<rparr>"
  have none: "filter (\<lambda>l. like_post l = post_id p \<and> like_user l = user_id a) (likes d) = []"
    using fresh by (auto simp: filter_empty_conv like_mem_iff)
  have "get_queryset ?d1 (Authenticated a) = get_queryset d (Authenticated a)"
    by (simp add: get_queryset_def)
  with vis have vis1: "get_object_or_404 (get_queryset ?d1 (Authenticated a)) pk = Inr p"
    by simp
  have one: "filter (\<lambda>l. like_post l = post_id p \<and> like_user l = user_id a) (likes ?d1) = [?l]"
    using none by simp
  have undo: "filter (\<lambda>l'. l' \<noteq> ?l) (likes ?d1) = likes d"
    using fresh by (auto simp: filter_id_conv)
  have s1: "like d (Authenticated a) pk =
      (Inr \<lparr>liked = True, likes_count = likes_count_of ?d1 (post_id p), message = ''Post liked''\<rparr>, ?d1)"
    using vis none by (simp add: like_def like_get_or_create_def Let_def)
  have s2: "like ?d1 (Authenticated a) pk =
      (Inr \<lparr>liked = False, likes_count = likes_count_of d (post_id p), message = ''Like removed''\<rparr>, d)"
    using vis1 one undo by (simp add: like_def like_get_or_create_def like_delete_def Let_def)
  have d1: "distinct (likes ?d1)" using uniq fresh by simp
  have c1: "likes_count_of ?d1 (post_id p) = card {k. \<lparr>like_post = post_id p, like_user = k\<rparr> \<in> set (likes ?d1)}"
    unfolding likes_count_of_def by (rule count_is_card [OF d1])
  have c2: "likes_count_of d (post_id p) = card {k. \<lparr>like_post = post_id p, like_user = k\<rparr> \<in> set (likes d)}"
    unfolding likes_count_of_def by (rule count_is_card [OF uniq])
  have c3: "likes_count_of ?d1 (post_id p) = Suc (likes_count_of d (post_id p))"
    by (simp add: likes_count_of_def)
  show ?thesis
    unfolding s1 using s2 d1 uniq c1 c2 c3 by simp
qed

theorem like_toggle_twice_witness:
  "get_object_or_404 (get_queryset db0 (Authenticated bob)) 10 = Inr alice_public \<and>
   distinct (likes db0) \<and>
   \<lparr>like_post = post_id alice_public, like_user = user_id bob\<rparr> \<notin> set (likes db0) \<and>
   like db0 (Authenticated bob) 10 =
     (Inr \<lparr>liked = True, likes_count = 2, message = ''Post liked''\<rparr>,
      db0\<lparr>likes := [\<lparr>like_post = 10, like_user = 1\<rparr>, \<lparr>like_post = 10, like_user = 2\<rparr>]\<rparr>) \<and>
   like (db0\<lparr>likes := [\<lparr>like_post = 10, like_user = 1\<rparr>, \<lparr>like_post = 10, like_user = 2\<rparr>]\<rparr>)
        (Authenticated bob) 10 =
     (Inr \<lparr>liked = False, likes_count = 1, message = ''Like removed''\<rparr>, db0)"
proof -
  have h: "get_object_or_404 (get_queryset db0 (Authenticated bob)) 10 = Inr alice_public"
    "distinct (likes db0)"
    "\<lparr>like_post = post_id alice_public, like_user = user_id bob\<rparr> \<notin> set (likes db0)"
    by (simp_all add: ex_defs get_object_or_404_def get_queryset_def)
  have e: "like db0 (Authenticated bob) 10 =
     (Inr \<lparr>liked = True, likes_count = 2, message = ''Post liked''\<rparr>,
      db0\<lparr>likes := [\<lparr>like_post = 10, like_user = 1\<rparr>, \<lparr>like_post = 10, like_user = 2\<rparr>]\<rparr>)"
    "like (db0\<lparr>likes := [\<lparr>like_post = 10, like_user = 1\<rparr>, \<lparr>like_post = 10, like_user = 2\<rparr>]\<rparr>)
        (Authenticated bob) 10 =
     (Inr \<lparr>liked = False, likes_count = 1, message = ''Like removed''\<rparr>, db0)"
    by (simp_all add: ex_defs like_def get_object_or_404_def get_queryset_def
        like_get_or_create_def like_delete_def likes_count_of_def Let_def)
  show ?thesis
    using like_toggle_twice [OF h] h e by simp
qed

section \<open>Media detail\<close>

text \<open>
  Claim C9. For a media row stored under its post, a retrieval or deletion addressed to
  it by an authenticated account returns (or deletes) the row if and only if the
  account is the author of the parent post or the uploader of the row. Every other
  account gets \<open>Http404\<close> and changes nothing, whatever the privacy of the post.
\<close>

theorem media_detail_author_or_uploader:
  assumes "distinct (map media_id (media_rows d))" and "distinct (map post_id (posts d))"
    and "obj \<in> set (media_rows d)" and "p \<in> set (posts d)" and "post_id p = media_post obj"
  shows "MediaDetailView_get d (Authenticated a) (media_post obj) (media_id obj) =
           (if author p = user_id a \<or> uploaded_by obj = user_id a then Inr obj else Inl Http404) \<and>
         MediaDetailView_delete d (Authenticated a) (media_post obj) (media_id obj) =
           (if author p = user_id a \<or> uploaded_by obj = user_id a
            then (Inr (), d\<lparr>media_rows := filter (\<lambda>m. media_id m \<noteq> media_id obj) (media_rows d)\<rparr>)
            else (Inl Http404, d))"
proof -
  let ?qs = "filter (\<lambda>m. media_post m = media_post obj) (media_rows d)"
  have "distinct (map media_id ?qs)" using assms(1) by (simp add: distinct_map_filter)
  moreover have "obj \<in> set ?qs" using assms(3) by simp
  ultimately have fm: "find (\<lambda>m. media_id m = media_id obj) ?qs = Some obj"
    by (rule find_by_media_id)
  have fp: "find (\<lambda>q. post_id q = media_post obj) (posts d) = Some p"
    using find_by_post_id [OF assms(2,4)] assms(5) by simp
  have g: "MediaDetailView_get_object d (Authenticated a) (media_post obj) (media_id obj) =
      (if author p = user_id a \<or> uploaded_by obj = user_id a then Inr obj else Inl Http404)"
    using fm fp by (simp add: MediaDetailView_get_object_def)
  show ?thesis
    unfolding MediaDetailView_get_def MediaDetailView_delete_def g by simp
qed

theorem media_detail_author_or_uploader_witness:
  "distinct (map media_id (media_rows db0)) \<and> distinct (map post_id (posts db0)) \<and>
   bob_media \<in> set (media_rows db0) \<and> alice_public \<in> set (posts db0) \<and>
   post_id alice_public = media_post bob_media \<and> post_privacy alice_public = Public \<and>
   MediaDetailView_get db0 (Authenticated alice) 10 1 = Inr bob_media \<and>
   MediaDetailView_get db0 (Authenticated bob) 10 1 = Inr bob_media \<and>
   MediaDetailView_get db0 (Authenticated carol) 10 1 = Inl Http404 \<and>
   MediaDetailView_delete db0 (Authenticated carol) 10 1 = (Inl Http404, db0) \<and>
   MediaDetailView_delete db0 (Authenticated bob) 10 1 = (Inr (), db0\<lparr>media_rows := []\<rparr>)"
proof -
  have h: "distinct (map media_id (media_rows db0))" "distinct (map post_id (posts db0))"
    "bob_media \<in> set (media_rows db0)" "alice_public \<in> set (posts db0)"
    "post_id alice_public = media_post bob_media"
    by (simp_all add: ex_defs)
  have e: "media_post bob_media = 10" "media_id bob_media = 1" "author alice_public = user_id alice"
    "uploaded_by bob_media = user_id bob" "author alice_public \<noteq> user_id carol"
    "uploaded_by bob_media \<noteq> user_id carol" "post_privacy alice_public = Public"
    "filter (\<lambda>m. media_id m \<noteq> 1) (media_rows db0) = []"
    by (simp_all add: ex_defs)
  show ?thesis
    using media_detail_author_or_uploader [OF h, of alice]
      media_detail_author_or_uploader [OF h, of bob]
      media_detail_author_or_uploader [OF h, of carol] h e
    by simp
qed

section \<open>Batch upload\<close>

text \<open>
  Claim C10. A batch upload by an authenticated account to a post it may upload to,
  with an empty list of files, is answered with the error \<open>No files provided\<close> and not
  with an empty result.
\<close>

theorem batch_no_files:
  assumes "find (\<lambda>q. post_id q = post_pk) (posts d) = Some p"
    and "post_privacy p = Public \<or> author p = user_id a"
  shows "MediaBatchUploadView_post be cfg d (Authenticated a) post_pk [] =
           (Inl (BadRequest ''No files provided''), d)"
  using assms by (auto simp: MediaBatchUploadView_post_def)

theorem batch_no_files_witness:
  "find (\<lambda>q. post_id q = 10) (posts db0) = Some alice_public \<and>
   (post_privacy alice_public = Public \<or> author alice_public = user_id bob) \<and>
   MediaBatchUploadView_post FileSystemStorage cfg0 db0 (Authenticated bob) 10 [] =
     (Inl (BadRequest ''No files provided''), db0)"
proof -
  have h: "find (\<lambda>q. post_id q = 10) (posts db0) = Some alice_public"
    "post_privacy alice_public = Public \<or> author alice_public = user_id bob"
    by (simp_all add: ex_defs)
  show ?thesis
    using batch_no_files [OF h, of FileSystemStorage cfg0] h by simp
qed

lemma length_filter_mono:
  "(\<And>x. P x \<Longrightarrow> Q x) \<Longrightarrow> length (filter P xs) \<le> length (filter Q xs)"
  by (induction xs) auto

lemma served_stored: "served be cfg pk f \<Longrightarrow> stored be cfg pk f"
  by (auto simp: served_def stored_def split: sum.splits option.splits)

lemma upload_each_result:
  "\<exists>new rs errs.
     upload_each be cfg pk k fs (d, cs, es) =
       (d\<lparr>media_rows := media_rows d @ new, next_media_id := next_media_id d + length new\<rparr>,
        cs @ rs, es @ errs) \<and>
     length new = length (filter (stored be cfg pk) fs) \<and>
     length rs = length (filter (served be cfg pk) fs) \<and>
     map fst errs = map upload_name (filter (\<lambda>f. \<not> served be cfg pk f) fs) \<and>
     set (map data_id rs) \<subseteq> set (map media_id new) \<and>
     (length rs = length new \<longrightarrow> map data_id rs = map media_id new)"
proof (induction fs arbitrary: d cs es)
  case Nil
  show ?case by simp
next
  case (Cons f fs)
  have step: ?case
    if run: "upload_each be cfg pk k (f # fs) (d, cs, es) = upload_each be cfg pk k fs (dx, cs @ rx, es @ ex)"
      and dx: "dx = d\<lparr>media_rows := media_rows d @ ns, next_media_id := next_media_id d + length ns\<rparr>"
      and ns: "length ns = (if stored be cfg pk f then 1 else 0)"
      and rx: "length rx = (if served be cfg pk f then 1 else 0)"
      and ex: "map fst ex = (if served be cfg pk f then [] else [upload_name f])"
      and ids: "map data_id rx = (if served be cfg pk f then map media_id ns else [])"
    for dx ns rx ex
  proof -
    obtain new rs errs where ih:
      "upload_each be cfg pk k fs (dx, cs @ rx, es @ ex) =
        (dx\<lparr>media_rows := media_rows dx @ new, next_media_id := next_media_id dx + length new\<rparr>,
         (cs @ rx) @ rs, (es @ ex) @ errs)"
      "length new = length (filter (stored be cfg pk) fs)"
      "length rs = length (filter (served be cfg pk) fs)"
      "map fst errs = map upload_name (filter (\<lambda>f. \<not> served be cfg pk f) fs)"
      "set (map data_id rs) \<subseteq> set (map media_id new)"
      "length rs = length new \<longrightarrow> map data_id rs = map media_id new"
      using Cons.IH [of dx "cs @ rx" "es @ ex"] by blast
    have le: "length rs \<le> length new"
      unfolding ih(2,3) by (rule length_filter_mono) (rule served_stored)
    have lx: "length rx \<le> length ns"
      using ns rx served_stored [of be cfg pk f] by (auto split: if_splits)
    have c1: "upload_each be cfg pk k (f # fs) (d, cs, es) =
       (d\<lparr>media_rows := media_rows d @ (ns @ new),
           next_media_id := next_media_id d + length (ns @ new)\<rparr>,
        cs @ (rx @ rs), es @ (ex @ errs))"
      using ih(1) unfolding run dx by simp
    have c2: "length (ns @ new) = length (filter (stored be cfg pk) (f # fs))"
      using ns ih(2) by simp
    have c3: "length (rx @ rs) = length (filter (served be cfg pk) (f # fs))"
      using rx ih(3) by simp
    have c4: "map fst (ex @ errs) = map upload_name (filter (\<lambda>f. \<not> served be cfg pk f) (f # fs))"
      using ex ih(4) by simp
    have ix: "set (map data_id rx) \<subseteq> set (map media_id ns)"
      using ids by (simp split: if_splits)
    have c5: "set (map data_id (rx @ rs)) \<subseteq> set (map media_id (ns @ new))"
      using ix ih(5) by auto
    have c6: "map data_id (rx @ rs) = map media_id (ns @ new)"
      if eq: "length (rx @ rs) = length (ns @ new)"
    proof -
      from eq le lx have "length rx = length ns" "length rs = length new" by simp_all
      with ih(6) ns rx ids show ?thesis by (simp split: if_splits)
    qed
    show ?thesis
      using c1 c2 c3 c4 c5 c6 by blast
  qed
  show ?case
  proof (cases "validate_media_file cfg f")
    case (Inl e)
    show ?thesis
      by (rule step [where dx = d and ns = "[]" and rx = "[]" and ex = "[(upload_name f, Invalid e)]"])
         (simp_all add: Inl stored_def served_def)
  next
    case (Inr meta)
    show ?thesis
    proof (cases "storage_save be (upload_post_media_path pk (upload_name f))")
      case None
      show ?thesis
        by (rule step [where dx = d and ns = "[]" and rx = "[]" and ex = "[(upload_name f, CreateFailed)]"])
           (simp_all add: Inr None stored_def served_def Media_create_def)
    next
      case (Some name)
      let ?m = "\<lparr>media_id = next_media_id d, media_post = pk, media_file = name,
                    media_content_type = meta_content_type meta, media_size = meta_size meta,
                    media_width = meta_width meta, media_height = meta_height meta,
                    uploaded_by = k\<rparr>"
      let ?d' = "d\<lparr>media_rows := media_rows d @ [?m], next_media_id := Suc (next_media_id d)\<rparr>"
      have mc: "Media_create be d pk f k meta = Some (?m, ?d')"
        by (simp add: Media_create_def Some Let_def)
      show ?thesis
      proof (cases "storage_url be name")
        case None
        show ?thesis
          by (rule step [where dx = ?d' and ns = "[?m]" and rx = "[]" and ex = "[(upload_name f, SerializeFailed)]"])
             (simp_all add: Inr Some None mc stored_def served_def MediaSerializer_data_def)
      next
        case (Some url)
        let ?r = "\<lparr>data_id = next_media_id d, data_file = url,
                data_content_type = meta_content_type meta, data_size = meta_size meta,
                data_width = meta_width meta, data_height = meta_height meta\<rparr>"
        show ?thesis
          by (rule step [where dx = ?d' and ns = "[?m]" and rx = "[?r]" and ex = "[]"])
             (simp_all add: Inr \<open>storage_save be (upload_post_media_path pk (upload_name f)) = Some name\<close>
                Some mc stored_def served_def MediaSerializer_data_def)
      qed
    qed
  qed
qed


text \<open>
  Claim C6, as the code has it. A batch upload of \<open>N \<ge> 1\<close> files by an authenticated
  account to a post it may upload to returns a result in which every file is either in
  \<open>created\<close> or in \<open>errors\<close>: in \<open>created\<close> when it passes validation, the storage
  takes it and its row serialises, in \<open>errors\<close> (in request order) for any other
  reason. Nothing is rolled back: the table afterwards is the old one followed by one
  row per file that was stored, and every created entry is one of these rows. The
  status is 201 when there is no error and 207 otherwise; when no file gets through,
  the result still comes back, with status 207 and nothing created. When every file
  that passes validation also gets through, the counts are the claim's: \<open>N - K\<close>
  created and \<open>K\<close> errors for \<open>K\<close> files failing validation, and the created entries
  are exactly the rows added.
\<close>

theorem batch_partial_success:
  assumes "find (\<lambda>q. post_id q = post_pk) (posts d) = Some p"
    and "post_privacy p = Public \<or> author p = user_id a"
    and "files \<noteq> []"
  shows "\<exists>r d' new.
           MediaBatchUploadView_post be cfg d (Authenticated a) post_pk files = (Inr r, d') \<and>
           length (created r) + length (errors r) = length files \<and>
           length (created r) = length (filter (served be cfg post_pk) files) \<and>
           map fst (errors r) = map upload_name (filter (\<lambda>f. \<not> served be cfg post_pk f) files) \<and>
           media_rows d' = media_rows d @ new \<and>
           length new = length (filter (stored be cfg post_pk) files) \<and>
           set (map data_id (created r)) \<subseteq> set (map media_id new) \<and>
           status_code r = (if errors r = [] then 201 else 207) \<and>
           (filter (served be cfg post_pk) files = [] \<longrightarrow>
              created r = [] \<and> status_code r = 207) \<and>
           ((\<forall>f \<in> set files. \<not> isl (validate_media_file cfg f) \<longrightarrow> served be cfg post_pk f) \<longrightarrow>
              length (created r) + length (failing_files cfg files) = length files \<and>
              length (errors r) = length (failing_files cfg files) \<and>
              map data_id (created r) = map media_id new)"
proof -
  let ?sv = "served be cfg post_pk" and ?st = "stored be cfg post_pk"
  obtain new rs errs where run:
    "upload_each be cfg post_pk (user_id a) files (d, [], []) =
       (d\<lparr>media_rows := media_rows d @ new, next_media_id := next_media_id d + length new\<rparr>,
        [] @ rs, [] @ errs)"
    and n: "length new = length (filter ?st files)"
    and r: "length rs = length (filter ?sv files)"
    and e: "map fst errs = map upload_name (filter (\<lambda>f. \<not> ?sv f) files)"
    and sub: "set (map data_id rs) \<subseteq> set (map media_id new)"
    and same: "length rs = length new \<longrightarrow> map data_id rs = map media_id new"
    using upload_each_result [of be cfg post_pk "user_id a" files d "[]" "[]"] by blast
  let ?r = "\<lparr>status_code = (if errs \<noteq> [] then 207 else 201), created = rs, errors = errs\<rparr>"
  let ?d' = "d\<lparr>media_rows := media_rows d @ new, next_media_id := next_media_id d + length new\<rparr>"
  have acc: "\<not> (post_privacy p = Private \<and> author p \<noteq> user_id a)"
    using assms(2) by auto
  have v: "MediaBatchUploadView_post be cfg d (Authenticated a) post_pk files = (Inr ?r, ?d')"
    using assms(1,3) acc run by (simp add: MediaBatchUploadView_post_def)
  have le: "length errs = length (filter (\<lambda>f. \<not> ?sv f) files)"
    using e by (metis length_map)
  have total: "length rs + length errs = length files"
    unfolding r le by (rule sum_length_filter_compl)
  have none: "rs = [] \<and> errs \<noteq> []" if "filter ?sv files = []"
    using that r total assms(3) by auto
  have clean: "length rs + length (failing_files cfg files) = length files \<and>
      length errs = length (failing_files cfg files) \<and> map data_id rs = map media_id new"
    if all: "\<forall>f \<in> set files. \<not> isl (validate_media_file cfg f) \<longrightarrow> ?sv f"
  proof -
    have iff: "(\<not> ?sv f) = isl (validate_media_file cfg f)" if "f \<in> set files" for f
      using all that by (auto simp: served_def split: sum.splits)
    have ff: "filter (\<lambda>f. \<not> ?sv f) files = failing_files cfg files"
      unfolding failing_files_def using iff by (auto intro: filter_cong)
    have st_sv: "?st f = ?sv f" if "f \<in> set files" for f
    proof
      assume "?st f"
      then have "\<not> isl (validate_media_file cfg f)"
        by (auto simp: stored_def split: sum.splits)
      with all that show "?sv f" by blast
    next
      assume "?sv f"
      then show "?st f" by (rule served_stored)
    qed
    have ss: "filter ?st files = filter ?sv files"
      by (rule filter_cong) (simp_all add: st_sv)
    have "length rs = length new" using n r ss by simp
    with same total le ff show ?thesis by simp
  qed
  show ?thesis
    apply (rule exI [of _ ?r], rule exI [of _ ?d'], rule exI [of _ new])
    using v total r e n sub none clean by simp
qed

text \<open>The example batches under the file-system storage, step by step.\<close>

lemma validate_examples:
  "validate_media_file cfg0 png_file =
     Inr \<lparr>meta_content_type = ''image/png'', meta_size = 75,
          meta_width = Some 10, meta_height = Some 10\<rparr>"
  "validate_media_file cfg0 bin_file = Inl (UnsupportedContentType ''application/octet-stream'')"
  "validate_media_file cfg0 big_file = Inl (FileTooLarge 5242880)"
  "validate_media_file cfg0 bang_file =
     Inr \<lparr>meta_content_type = ''text/plain'', meta_size = 5,
          meta_width = None, meta_height = None\<rparr>"
  by (simp_all add: validate_media_file_def startswith_def cfg0_def png_file_def bin_file_def
      big_file_def bang_file_def)

lemma name_examples:
  "upload_name png_file = ''img.png''" "upload_name bin_file = ''file.bin''"
  "upload_name big_file = ''big.txt''" "upload_name bang_file = ''!!!''"
  by (simp_all add: png_file_def bin_file_def big_file_def bang_file_def)

lemma save_examples:
  "storage_save FileSystemStorage (upload_post_media_path 10 ''img.png'') = Some ''posts/10/img.png''"
  "storage_save FileSystemStorage (upload_post_media_path 10 ''!!!'') = None"
  "storage_url FileSystemStorage ''posts/10/img.png'' = Some ''/media/posts/10/img.png''"
  by (simp add: FileSystemStorage_def, code_simp)
     (simp add: FileSystemStorage_def, code_simp, simp add: FileSystemStorage_def)

lemma served_examples:
  "served FileSystemStorage cfg0 10 png_file" "stored FileSystemStorage cfg0 10 png_file"
  "\<not> served FileSystemStorage cfg0 10 bin_file" "\<not> served FileSystemStorage cfg0 10 bang_file"
  "\<not> stored FileSystemStorage cfg0 10 bang_file" "\<not> stored FileSystemStorage cfg0 10 bin_file"
  by (simp_all add: served_def stored_def validate_examples name_examples save_examples)

lemma batch_examples:
  "MediaBatchUploadView_post FileSystemStorage cfg0 db0 (Authenticated alice) 10
       [png_file, bin_file, bang_file] =
     (Inr \<lparr>status_code = 207,
           created = [\<lparr>data_id = 2, data_file = ''/media/posts/10/img.png'',
                       data_content_type = ''image/png'', data_size = 75,
                       data_width = Some 10, data_height = Some 10\<rparr>],
           errors = [(''file.bin'', Invalid (UnsupportedContentType ''application/octet-stream'')),
                     (''!!!'', CreateFailed)]\<rparr>,
      db0\<lparr>media_rows := media_rows db0 @
              [\<lparr>media_id = 2, media_post = 10, media_file = ''posts/10/img.png'',
                media_content_type = ''image/png'', media_size = 75,
                media_width = Some 10, media_height = Some 10, uploaded_by = 1\<rparr>],
          next_media_id := 3\<rparr>)"
  "MediaBatchUploadView_post FileSystemStorage cfg0 db0 (Authenticated alice) 10 [bin_file] =
     (Inr \<lparr>status_code = 207, created = [],
           errors = [(''file.bin'', Invalid (UnsupportedContentType ''application/octet-stream''))]\<rparr>,
      db0)"
  "MediaBatchUploadView_post FileSystemStorage cfg0 db0 (Authenticated alice) 10 [bang_file] =
     (Inr \<lparr>status_code = 207, created = [], errors = [(''!!!'', CreateFailed)]\<rparr>, db0)"
  "MediaBatchUploadView_post FileSystemStorage cfg0 db0 (Authenticated alice) 10 [png_file, bin_file] =
     (Inr \<lparr>status_code = 207,
           created = [\<lparr>data_id = 2, data_file = ''/media/posts/10/img.png'',
                       data_content_type = ''image/png'', data_size = 75,
                       data_width = Some 10, data_height = Some 10\<rparr>],
           errors = [(''file.bin'', Invalid (UnsupportedContentType ''application/octet-stream''))]\<rparr>,
      db0\<lparr>media_rows := media_rows db0 @
              [\<lparr>media_id = 2, media_post = 10, media_file = ''posts/10/img.png'',
                media_content_type = ''image/png'', media_size = 75,
                media_width = Some 10, media_height = Some 10, uploaded_by = 1\<rparr>],
          next_media_id := 3\<rparr>)"
proof -
  have h: "find (\<lambda>q. post_id q = 10) (posts db0) = Some alice_public"
    "post_privacy alice_public = Public" "user_id alice = 1" "next_media_id db0 = 2"
    by (simp_all add: ex_defs)
  note n = name_examples
  show "MediaBatchUploadView_post FileSystemStorage cfg0 db0 (Authenticated alice) 10
       [png_file, bin_file, bang_file] =
     (Inr \<lparr>status_code = 207,
           created = [\<lparr>data_id = 2, data_file = ''/media/posts/10/img.png'',
                       data_content_type = ''image/png'', data_size = 75,
                       data_width = Some 10, data_height = Some 10\<rparr>],
           errors = [(''file.bin'', Invalid (UnsupportedContentType ''application/octet-stream'')),
                     (''!!!'', CreateFailed)]\<rparr>,
      db0\<lparr>media_rows := media_rows db0 @
              [\<lparr>media_id = 2, media_post = 10, media_file = ''posts/10/img.png'',
                media_content_type = ''image/png'', media_size = 75,
                media_width = Some 10, media_height = Some 10, uploaded_by = 1\<rparr>],
          next_media_id := 3\<rparr>)"
    by (simp add: MediaBatchUploadView_post_def Media_create_def MediaSerializer_data_def
        validate_examples save_examples h n Let_def)
  show "MediaBatchUploadView_post FileSystemStorage cfg0 db0 (Authenticated alice) 10 [bin_file] =
     (Inr \<lparr>status_code = 207, created = [],
           errors = [(''file.bin'', Invalid (UnsupportedContentType ''application/octet-stream''))]\<rparr>,
      db0)"
    by (simp add: MediaBatchUploadView_post_def validate_examples h n)
  show "MediaBatchUploadView_post FileSystemStorage cfg0 db0 (Authenticated alice) 10 [bang_file] =
     (Inr \<lparr>status_code = 207, created = [], errors = [(''!!!'', CreateFailed)]\<rparr>, db0)"
    by (simp add: MediaBatchUploadView_post_def Media_create_def validate_examples save_examples h n)  show "MediaBatchUploadView_post FileSystemStorage cfg0 db0 (Authenticated alice) 10 [png_file, bin_file] =
     (Inr \<lparr>status_code = 207,
           created = [\<lparr>data_id = 2, data_file = ''/media/posts/10/img.png'',
                       data_content_type = ''image/png'', data_size = 75,
                       data_width = Some 10, data_height = Some 10\<rparr>],
           errors = [(''file.bin'', Invalid (UnsupportedContentType ''application/octet-stream''))]\<rparr>,
      db0\<lparr>media_rows := media_rows db0 @
              [\<lparr>media_id = 2, media_post = 10, media_file = ''posts/10/img.png'',
                media_content_type = ''image/png'', media_size = 75,
                media_width = Some 10, media_height = Some 10, uploaded_by = 1\<rparr>],
          next_media_id := 3\<rparr>)"
    by (simp add: MediaBatchUploadView_post_def Media_create_def MediaSerializer_data_def
        validate_examples save_examples h n Let_def)
qed

theorem batch_partial_success_witness:
  "find (\<lambda>q. post_id q = 10) (posts db0) = Some alice_public \<and>
   (post_privacy alice_public = Public \<or> author alice_public = user_id alice) \<and>
   [png_file, bin_file, bang_file] \<noteq> [] \<and>
   MediaBatchUploadView_post FileSystemStorage cfg0 db0 (Authenticated alice) 10
       [png_file, bin_file, bang_file] =
     (Inr \<lparr>status_code = 207,
           created = [\<lparr>data_id = 2, data_file = ''/media/posts/10/img.png'',
                       data_content_type = ''image/png'', data_size = 75,
                       data_width = Some 10, data_height = Some 10\<rparr>],
           errors = [(''file.bin'', Invalid (UnsupportedContentType ''application/octet-stream'')),
                     (''!!!'', CreateFailed)]\<rparr>,
      db0\<lparr>media_rows := media_rows db0 @
              [\<lparr>media_id = 2, media_post = 10, media_file = ''posts/10/img.png'',
                media_content_type = ''image/png'', media_size = 75,
                media_width = Some 10, media_height = Some 10, uploaded_by = 1\<rparr>],
          next_media_id := 3\<rparr>) \<and>
   filter (served FileSystemStorage cfg0 10) [png_file, bin_file, bang_file] = [png_file] \<and>
   filter (stored FileSystemStorage cfg0 10) [png_file, bin_file, bang_file] = [png_file] \<and>
   filter (served FileSystemStorage cfg0 10) [bin_file] = [] \<and>
   MediaBatchUploadView_post FileSystemStorage cfg0 db0 (Authenticated alice) 10 [bin_file] =
     (Inr \<lparr>status_code = 207, created = [],
           errors = [(''file.bin'', Invalid (UnsupportedContentType ''application/octet-stream''))]\<rparr>,
      db0) \<and>
   served FileSystemStorage cfg0 10 png_file \<and> isl (validate_media_file cfg0 bin_file) \<and>
   failing_files cfg0 [png_file, bin_file] = [bin_file] \<and>
   MediaBatchUploadView_post FileSystemStorage cfg0 db0 (Authenticated alice) 10 [png_file, bin_file] =
     (Inr \<lparr>status_code = 207,
           created = [\<lparr>data_id = 2, data_file = ''/media/posts/10/img.png'',
                       data_content_type = ''image/png'', data_size = 75,
                       data_width = Some 10, data_height = Some 10\<rparr>],
           errors = [(''file.bin'', Invalid (UnsupportedContentType ''application/octet-stream''))]\<rparr>,
      db0\<lparr>media_rows := media_rows db0 @
              [\<lparr>media_id = 2, media_post = 10, media_file = ''posts/10/img.png'',
                media_content_type = ''image/png'', media_size = 75,
                media_width = Some 10, media_height = Some 10, uploaded_by = 1\<rparr>],
          next_media_id := 3\<rparr>)"
proof -
  have h: "find (\<lambda>q. post_id q = 10) (posts db0) = Some alice_public"
    "post_privacy alice_public = Public \<or> author alice_public = user_id alice"
    by (simp_all add: ex_defs)
  have f: "filter (served FileSystemStorage cfg0 10) [png_file, bin_file, bang_file] = [png_file]"
    "filter (stored FileSystemStorage cfg0 10) [png_file, bin_file, bang_file] = [png_file]"
    "filter (served FileSystemStorage cfg0 10) [bin_file] = []"
    "isl (validate_media_file cfg0 bin_file)"
    "failing_files cfg0 [png_file, bin_file] = [bin_file]"
    by (simp_all add: served_examples failing_files_def validate_examples)
  have t3: "\<exists>r d'. MediaBatchUploadView_post FileSystemStorage cfg0 db0 (Authenticated alice) 10
        [png_file, bin_file, bang_file] = (Inr r, d') \<and>
      length (created r) + length (errors r) = length [png_file, bin_file, bang_file]"
    using batch_partial_success [OF h, of "[png_file, bin_file, bang_file]" FileSystemStorage cfg0]
    by blast
  have t1: "\<exists>r d'. MediaBatchUploadView_post FileSystemStorage cfg0 db0 (Authenticated alice) 10
        [bin_file] = (Inr r, d') \<and> created r = [] \<and> status_code r = 207"
    using batch_partial_success [OF h, of "[bin_file]" FileSystemStorage cfg0] f(3)
    by blast
  have all: "\<forall>x \<in> set [png_file, bin_file].
      \<not> isl (validate_media_file cfg0 x) \<longrightarrow> served FileSystemStorage cfg0 10 x"
    using f(4) served_examples(1) by simp
  have t2: "\<exists>r d'. MediaBatchUploadView_post FileSystemStorage cfg0 db0 (Authenticated alice) 10
        [png_file, bin_file] = (Inr r, d') \<and>
      length (errors r) = length (failing_files cfg0 [png_file, bin_file])"
    using batch_partial_success [OF h, of "[png_file, bin_file]" FileSystemStorage cfg0] all
    by blast
  show ?thesis
    using t3 t1 t2 h f batch_examples served_examples(1) by simp
qed

theorem batch_validated_file_refused_counterexample:
  "failing_files cfg0 [bang_file] = [] \<and>
   MediaBatchUploadView_post FileSystemStorage cfg0 db0 (Authenticated alice) 10 [bang_file] =
     (Inr \<lparr>status_code = 207, created = [], errors = [(''!!!'', CreateFailed)]\<rparr>, db0)"
  by (simp add: failing_files_def validate_examples batch_examples)

section \<open>Logout\<close>

text \<open>
  Claim C5, as the code has it. For a non-empty token string presented by an
  authenticated account, logout succeeds exactly when the token decodes, has not
  expired, is not on the blacklist yet and is a refresh token; its identifier is then
  put on the blacklist. In every other case (a malformed token, and also an expired or
  an already revoked one) the answer is the 400 response \<open>Invalid token\<close> and nothing
  changes.
\<close>

theorem logout_outcome:
  assumes "s \<noteq> []"
  shows "logout_view decode now d (Authenticated a) (Some s) =
           (case decode s of
              None \<Rightarrow> (Inl (BadRequest ''Invalid token''), d)
            | Some t \<Rightarrow>
                if now < exp t \<and> jti t \<notin> set (blacklisted d) \<and> token_type t = ''refresh''
                then (Inr ''Successfully logged out'', d\<lparr>blacklisted := blacklisted d @ [jti t]\<rparr>)
                else (Inl (BadRequest ''Invalid token''), d))"
  using assms
  by (auto simp: logout_view_def RefreshToken_def blacklist_def split: option.splits)

theorem logout_outcome_witness:
  "''refresh.alice.1'' \<noteq> [] \<and>
   logout_view decode0 10 db0 (Authenticated alice) (Some ''refresh.alice.1'') =
     (Inr ''Successfully logged out'', db0\<lparr>blacklisted := [''jti-1'']\<rparr>) \<and>
   logout_view decode0 10 db0 (Authenticated alice) (Some ''garbage'') =
     (Inl (BadRequest ''Invalid token''), db0)"
  using logout_outcome [of "''refresh.alice.1''" decode0 10 db0 alice]
    logout_outcome [of "''garbage''" decode0 10 db0 alice]
  by (simp add: decode0_def db0_def)

theorem logout_revoked_counterexample:
  "decode0 ''refresh.alice.1'' = Some \<lparr>jti = ''jti-1'', exp = 1000, token_type = ''refresh''\<rparr> \<and>
   logout_view decode0 10 db0 (Authenticated alice) (Some ''refresh.alice.1'') =
     (Inr ''Successfully logged out'', db0\<lparr>blacklisted := [''jti-1'']\<rparr>) \<and>
   logout_view decode0 10 (db0\<lparr>blacklisted := [''jti-1'']\<rparr>) (Authenticated alice) (Some ''refresh.alice.1'') =
     (Inl (BadRequest ''Invalid token''), db0\<lparr>blacklisted := [''jti-1'']\<rparr>) \<and>
   logout_view decode0 2000 db0 (Authenticated alice) (Some ''refresh.alice.1'') =
     (Inl (BadRequest ''Invalid token''), db0)"
  by (simp add: logout_view_def RefreshToken_def blacklist_def decode0_def db0_def)

section \<open>Registration\<close>

text \<open>
  What \<open>register\<close> does for the cases of claim C7. It fails with \<open>ValidationError\<close>
  and changes nothing when the two passwords differ, when the address (trimmed) is an
  address of the user table, or when the password fails the policy. When it succeeds,
  the account is the one row added to the user table, exactly one profile row belongs
  to it, and a password check with the password as the serializer trimmed it succeeds.
\<close>

lemma registration_rejected:
  assumes "CharField (req_password req) \<noteq> CharField (req_password_confirm req) \<or>
           (\<exists>em. CharField (req_email req) = Inr em \<and> em \<in> set (map email (users d))) \<or>
           (\<exists>pw. CharField (req_password req) = Inr pw \<and> \<not> vp pw)"
  shows "register vp ve d req = (Inl ValidationError, d)"
proof -
  have bad: "x = ValidationError" if "CharField v = Inl x" for v x
    using that by (auto simp: CharField_def split: option.splits if_splits)
  have "is_valid vp ve d req = Inl ValidationError"
    using assms
    by (auto simp: is_valid_def validate_def dest!: bad split: sum.splits option.splits)
  then show ?thesis by (simp add: register_def)
qed

lemma registration_accepted:
  assumes ok: "register vp ve d req = (Inr usr, d')"
  shows "\<exists>pw. CharField (req_password req) = Inr pw \<and> check_password usr pw \<and>
           length (filter (\<lambda>p. profile_user p = user_id usr) (profiles d')) = 1 \<and>
           users d' = users d @ [usr]"
proof -
  from ok obtain dat where v: "is_valid vp ve d req = Inr dat"
    and c: "serializer_create d dat = (Inr usr, d')"
    by (auto simp: register_def split: sum.splits)
  from v have pw: "CharField (req_password req) = Inr (reg_password dat)"
    by (auto simp: is_valid_def validate_def split: sum.splits option.splits if_splits)
  from c obtain d1 name
    where cu: "create_user d (reg_email dat) (Some (reg_password dat)) [] [] = Inr (usr, d1)"
      and pc: "Profile_create d1 (user_id usr) name = Inr d'"
    by (auto simp: serializer_create_def Let_def split: sum.splits prod.splits)
  from cu have u: "password usr = Hashed (reg_password dat)" "users d1 = users d @ [usr]"
    by (auto simp: create_user_def Let_def split: if_splits)
  from pc have np: "user_id usr \<notin> set (map profile_user (profiles d1))"
    and p': "d' = d1\<lparr>profiles := profiles d1 @
               [\<lparr>profile_user = user_id usr, display_name = name, bio = []\<rparr>]\<rparr>"
    by (auto simp: Profile_create_def has_profile_def split: if_splits)
  from np have "filter (\<lambda>p. profile_user p = user_id usr) (profiles d1) = []"
    by (force simp: filter_empty_conv)
  then show ?thesis
    using u p' pw by (simp add: check_password_def)
qed

lemma strip_examples:
  "strip ''alice@EXAMPLE.COM'' = ''alice@EXAMPLE.COM''"
  "strip ''testpass123'' = ''testpass123''"
  "normalize_email ''alice@EXAMPLE.COM'' = ''alice@example.com''"
  by code_simp+

lemma alice_again_valid:
  "is_valid policy0 format0 db0 alice_again_req =
     Inr \<lparr>reg_email = ''alice@EXAMPLE.COM'', reg_password = ''testpass123'',
          reg_password_confirm = ''testpass123'', reg_display_name = None\<rparr>"
  by (simp add: is_valid_def validate_def CharField_def alice_again_req_def strip_examples
      policy0_def format0_def ex_defs)

text \<open>
  The password is trimmed before anything else is done with it: a registration with the
  password \<open>testpass123\<close> between two spaces succeeds, and the account's password is
  the one without the spaces.
\<close>

lemma padded_password_example:
  "fst (register policy0 format0 db0 padded_req) = Inr dave \<and>
   check_password dave ''testpass123'' \<and> \<not> check_password dave '' testpass123 ''"
proof -
  have s: "strip ''dave@example.com'' = ''dave@example.com''"
    "strip '' testpass123 '' = ''testpass123''"
    "normalize_email ''dave@example.com'' = ''dave@example.com''"
    "split_at_first ''dave@example.com'' = ''dave''"
    by code_simp+
  have v: "is_valid policy0 format0 db0 padded_req =
     Inr \<lparr>reg_email = ''dave@example.com'', reg_password = ''testpass123'',
          reg_password_confirm = ''testpass123'', reg_display_name = None\<rparr>"
    by (simp add: is_valid_def validate_def CharField_def padded_req_def s policy0_def
        format0_def ex_defs)
  have c: "create_user db0 ''dave@example.com'' (Some ''testpass123'') [] [] =
     Inr (dave, db0\<lparr>users := users db0 @ [dave], next_user_id := 5\<rparr>)"
    by (simp add: create_user_def s Let_def dave_def ex_defs)
  have p: "fst (serializer_create db0
      \<lparr>reg_email = ''dave@example.com'', reg_password = ''testpass123'',
       reg_password_confirm = ''testpass123'', reg_display_name = None\<rparr>) = Inr dave"
  proof -
    have "\<not> has_profile (db0\<lparr>users := users db0 @ [dave], next_user_id := 5\<rparr>) (user_id dave)"
      by (simp add: has_profile_def db0_def dave_def)
    then show ?thesis
      by (simp add: serializer_create_def c Profile_create_def)
  qed
  show ?thesis
    by (simp add: register_def v p check_password_def dave_def)
qed

text \<open>
  Claim C7 says that registration fails with \<open>ValidationError\<close> whenever the address is
  taken. The code misses a case there, the one of claim C4: the uniqueness validator
  compares the address as sent, \<open>create_user\<close> stores the normalised address, and the
  user table holds each address once. With Alice registered as \<open>alice@example.com\<close>, a
  registration for \<open>alice@EXAMPLE.COM\<close> passes \<open>is_valid\<close> and then fails in
  \<open>create_user\<close> with \<open>IntegrityError\<close>, which the view does not catch.
\<close>

theorem registration_collision:
  "email alice = ''alice@example.com'' \<and> alice \<in> set (users db0) \<and>
   CharField (req_email alice_again_req) = Inr ''alice@EXAMPLE.COM'' \<and>
   normalize_email ''alice@EXAMPLE.COM'' = ''alice@example.com'' \<and>
   register policy0 format0 db0 alice_again_req = (Inl IntegrityError, db0)"
proof -
  have "create_user db0 ''alice@EXAMPLE.COM'' (Some ''testpass123'') [] [] = Inl IntegrityError"
    by (simp add: create_user_def strip_examples Let_def ex_defs)
  then have "register policy0 format0 db0 alice_again_req = (Inl IntegrityError, db0)"
    by (simp add: register_def alice_again_valid serializer_create_def)
  then show ?thesis
    by (simp add: CharField_def alice_again_req_def strip_examples ex_defs)
qed

section \<open>Social login resolution\<close>

text \<open>
  What \<open>get_or_create_user_from_google\<close> does, case by case, for claims with an
  address and a subject id: an identity already linked to the subject id wins; else an
  account with exactly the claimed address is linked; else an account is created,
  provided the normalised address is free. A resolution that succeeded is stable: the
  next one with the same subject id returns the same account and creates nothing.
\<close>

lemma google_existing_identity:
  assumes "g_email info = Some e" "e \<noteq> []" "g_id info = Some gid" "gid \<noteq> []"
    and "filter (\<lambda>s. sa_provider s = ''google'' \<and> sa_uid s = gid) (social_accounts d) = [s]"
    and "find (\<lambda>usr. user_id usr = sa_user s) (users d) = Some usr"
  shows "get_or_create_user_from_google d info = (Inr (usr, False), d)"
  using assms by (simp add: get_or_create_user_from_google_def get_or_def)

lemma google_link_by_email:
  assumes "g_email info = Some e" "e \<noteq> []" "g_id info = Some gid" "gid \<noteq> []"
    and "filter (\<lambda>s. sa_provider s = ''google'' \<and> sa_uid s = gid) (social_accounts d) = []"
    and "filter (\<lambda>usr. email usr = e) (users d) = [usr]"
  shows "get_or_create_user_from_google d info =
           (Inr (usr, False),
            d\<lparr>social_accounts := social_accounts d @
                 [\<lparr>sa_user = user_id usr, sa_provider = ''google'', sa_uid = gid\<rparr>]\<rparr>)"
proof -
  have "(''google'', gid) \<notin> set (map (\<lambda>s. (sa_provider s, sa_uid s)) (social_accounts d))"
    using assms(5) by (auto simp: filter_empty_conv)
  then show ?thesis
    using assms by (simp add: get_or_create_user_from_google_def get_or_def SocialAccount_create_def)
qed

lemma google_new_account:
  assumes "g_email info = Some e" "e \<noteq> []" "g_id info = Some gid" "gid \<noteq> []"
    and "filter (\<lambda>s. sa_provider s = ''google'' \<and> sa_uid s = gid) (social_accounts d) = []"
    and "filter (\<lambda>usr. email usr = e) (users d) = []"
    and "normalize_email e \<notin> set (map email (users d))"
    and "\<not> has_profile d (next_user_id d)"
  shows "\<exists>usr d'. get_or_create_user_from_google d info = (Inr (usr, True), d') \<and>
           users d' = users d @ [usr] \<and> user_id usr = next_user_id d \<and>
           email usr = normalize_email e \<and> password usr = Unusable \<and>
           social_accounts d' = social_accounts d @
             [\<lparr>sa_user = user_id usr, sa_provider = ''google'', sa_uid = gid\<rparr>] \<and>
           has_profile d' (user_id usr)"
proof -
  have na: "(''google'', gid) \<notin> set (map (\<lambda>s. (sa_provider s, sa_uid s)) (social_accounts d))"
    using assms(5) by (auto simp: filter_empty_conv)
  show ?thesis
    using assms na
    by (simp add: get_or_create_user_from_google_def get_or_def create_user_from_google_def
        create_user_def SocialAccount_create_def Profile_create_def has_profile_def Let_def)
qed

lemma google_normalised_clash:
  assumes "g_email info = Some e" "e \<noteq> []" "g_id info = Some gid" "gid \<noteq> []"
    and "filter (\<lambda>s. sa_provider s = ''google'' \<and> sa_uid s = gid) (social_accounts d) = []"
    and "filter (\<lambda>usr. email usr = e) (users d) = []"
    and "normalize_email e \<in> set (map email (users d))"
  shows "get_or_create_user_from_google d info = (Inl IntegrityError, d)"
  using assms
  by (simp add: get_or_create_user_from_google_def get_or_def create_user_from_google_def
      create_user_def Let_def)

lemma google_stable:
  assumes first: "get_or_create_user_from_google d info = (Inr (usr, c), d')"
    and ids: "distinct (map user_id (users d))"
    and below: "\<forall>x \<in> set (users d). user_id x < next_user_id d"
    and same: "g_id info2 = g_id info"
    and mail: "g_email info2 = Some e2" "e2 \<noteq> []"
  shows "get_or_create_user_from_google d' info2 = (Inr (usr, False), d')"
proof -
  let ?gid = "get_or (g_id info) []" and ?e = "get_or (g_email info) []"
  let ?acc = "\<lambda>s. sa_provider s = ''google'' \<and> sa_uid s = ?gid"
  from first have ne: "?e \<noteq> []" "?gid \<noteq> []"
    by (auto simp: get_or_create_user_from_google_def Let_def split: if_splits)
  have second: "get_or_create_user_from_google d' info2 = (Inr (usr, False), d')"
    if "filter ?acc (social_accounts d') = [s]" "find (\<lambda>x. user_id x = sa_user s) (users d') = Some usr" for s
    using that ne same mail by (simp add: get_or_create_user_from_google_def get_or_def)
  consider (found) s where "filter ?acc (social_accounts d) = [s]"
    | (none) "filter ?acc (social_accounts d) = []"
    | (many) x y zs where "filter ?acc (social_accounts d) = x # y # zs"
    by (cases "filter ?acc (social_accounts d)" rule: remdups_adj.cases) auto
  then show ?thesis
  proof cases
    case (found s)
    with first ne have e: "d' = d" and f: "find (\<lambda>x. user_id x = sa_user s) (users d) = Some usr"
      by (auto simp: get_or_create_user_from_google_def Let_def split: option.splits)
    show ?thesis
      using second [of s] found e f by simp
  next
    case many
    with first ne show ?thesis
      by (simp add: get_or_create_user_from_google_def Let_def)
  next
    case none
    then have na: "(''google'', ?gid) \<notin> set (map (\<lambda>s. (sa_provider s, sa_uid s)) (social_accounts d))"
      by (auto simp: filter_empty_conv)
    consider (link) u where "filter (\<lambda>x. email x = ?e) (users d) = [u]"
      | (new) "filter (\<lambda>x. email x = ?e) (users d) = []"
      | (dup) x y zs where "filter (\<lambda>x. email x = ?e) (users d) = x # y # zs"
      by (cases "filter (\<lambda>x. email x = ?e) (users d)" rule: remdups_adj.cases) auto
    then show ?thesis
    proof cases
      case (link u)
      with first ne none na have u: "u = usr"
        and d': "d' = d\<lparr>social_accounts := social_accounts d @
                 [\<lparr>sa_user = user_id usr, sa_provider = ''google'', sa_uid = ?gid\<rparr>]\<rparr>"
        by (auto simp: get_or_create_user_from_google_def SocialAccount_create_def Let_def)
      have "usr \<in> set (filter (\<lambda>x. email x = ?e) (users d))" using link u by simp
      then have "usr \<in> set (users d)" by simp
      then have "find (\<lambda>x. user_id x = user_id usr) (users d) = Some usr"
        using find_by_user_id [OF ids] by simp
      then have f2: "find (\<lambda>x. user_id x = user_id usr) (users d') = Some usr"
        by (simp add: d')
      have f1: "filter ?acc (social_accounts d') =
          [\<lparr>sa_user = user_id usr, sa_provider = ''google'', sa_uid = ?gid\<rparr>]"
        using none by (simp add: d')
      show ?thesis
        by (rule second [OF f1]) (simp add: f2)
    next
      case dup
      with first ne none show ?thesis
        by (simp add: get_or_create_user_from_google_def Let_def)
    next
      case new
      with first ne none na have us: "users d' = users d @ [usr]" and uid: "user_id usr = next_user_id d"
        and sa: "social_accounts d' = social_accounts d @
                 [\<lparr>sa_user = user_id usr, sa_provider = ''google'', sa_uid = ?gid\<rparr>]"
        by (auto simp: get_or_create_user_from_google_def create_user_from_google_def
            create_user_def SocialAccount_create_def Profile_create_def Let_def
            split: if_splits sum.splits prod.splits)
      have "find (\<lambda>x. user_id x = user_id usr) (users d) = None"
        using below uid by (auto simp: find_None_iff)
      then have f2: "find (\<lambda>x. user_id x = user_id usr) (users d') = Some usr"
        unfolding us by (simp add: find_after)
      have f1: "filter ?acc (social_accounts d') =
          [\<lparr>sa_user = user_id usr, sa_provider = ''google'', sa_uid = ?gid\<rparr>]"
        using none by (simp add: sa)
      show ?thesis
        by (rule second [OF f1]) (simp add: f2)
    qed
  qed
qed

text \<open>
  Claim C4 says that, when neither an identity nor an account with the claimed address
  exists, a new account is created. The code misses a case there: the account lookup
  compares the address as claimed, \<open>create_user\<close> stores the normalised address, and
  the user table holds each address once. With Alice registered as
  \<open>alice@example.com\<close> and a Google account claiming \<open>alice@EXAMPLE.COM\<close>, no identity
  is linked and no account has the claimed address, yet the resolution neither links nor
  creates: it fails with \<open>IntegrityError\<close> and the database is unchanged.
\<close>

theorem google_collision:
  "filter (\<lambda>s. sa_provider s = ''google'' \<and> sa_uid s = ''g1'') (social_accounts db0) = [] \<and>
   filter (\<lambda>usr. email usr = ''alice@EXAMPLE.COM'') (users db0) = [] \<and>
   normalize_email ''alice@EXAMPLE.COM'' = email alice \<and>
   get_or_create_user_from_google db0 google_alice = (Inl IntegrityError, db0)"
  by code_simp

end
